theory Spec2Isabelle
  imports Main "HOL-Library.Word"
begin

section \<open>The websocket client bootstrap of aws-c-http (source/websocket\_bootstrap.c)\<close>

text \<open>
  The bootstrap opens an HTTP connection, sends the HTTP Upgrade request, checks the
  response and installs the websocket handler. It is driven by callbacks of the HTTP
  layer, all on the connection's thread. The embedding keeps the C structure: one HOL
  function per C function, an explicit memory for the two byte buffers (the header
  records hold raw addresses into them), an explicit last-error cell, and a log of
  every call the bootstrap makes on its collaborators and on the user's callbacks.
\<close>

subsection \<open>Error codes and status codes\<close>

text \<open>
  Error codes are C \<open>int\<close>s; zero is success. The named codes are enumerators of
  aws-c-common and aws-c-http, whose headers are not part of this source tree.

  Modelled from the spec: the enumerators \<open>AWS_ERROR_OOM\<close>, \<open>AWS_ERROR_UNKNOWN\<close>
  ("a generic unknown-error code"), \<open>AWS_ERROR_INVALID_ARGUMENT\<close> (\<open>InvalidArgument\<close>)
  and \<open>AWS_ERROR_HTTP_WEBSOCKET_UPGRADE_FAILURE\<close> (\<open>UpgradeFailure\<close>) are distinct
  non-zero error codes; \<open>AWS_HTTP_STATUS_UNKNOWN\<close> is the status "unknown" (-1) and
  the status of "Switching Protocols" is 101. The theorems below use of the error
  codes only that they are non-zero and distinct.
\<close>

definition AWS_ERROR_OOM :: int where
  "AWS_ERROR_OOM = 1"

definition AWS_ERROR_UNKNOWN :: int where
  "AWS_ERROR_UNKNOWN = 2"

definition AWS_ERROR_INVALID_ARGUMENT :: int where
  "AWS_ERROR_INVALID_ARGUMENT = 33"

definition AWS_ERROR_HTTP_WEBSOCKET_UPGRADE_FAILURE :: int where
  "AWS_ERROR_HTTP_WEBSOCKET_UPGRADE_FAILURE = 2060"

definition AWS_HTTP_STATUS_UNKNOWN :: int where
  "AWS_HTTP_STATUS_UNKNOWN = - 1"

definition AWS_HTTP_STATUS_101_SWITCHING_PROTOCOLS :: int where
  "AWS_HTTP_STATUS_101_SWITCHING_PROTOCOLS = 101"

subsection \<open>Memory, byte cursors and byte buffers\<close>

text \<open>
  An address is a block and an offset into it. A block of the memory is either live,
  holding the bytes written to it so far, or released (\<open>None\<close>). Reading through an
  address whose block is released, or beyond the bytes written, has no defined result.
  Whether an allocation succeeds is decided by the allocator: \<open>alloc_plan\<close> lists the
  outcomes of the coming allocation requests (all succeed once the list is used up).
\<close>

type_synonym address = "nat \<times> nat"

record mem =
  heap :: "string option list"
  alloc_plan :: "bool list"

record aws_byte_cursor =
  cur_ptr :: address
  cur_len :: nat

record aws_http_header =
  hdr_name :: aws_byte_cursor
  hdr_value :: aws_byte_cursor

record aws_byte_buf =
  buf_buffer :: nat
  buf_len :: nat
  buf_capacity :: nat

definition block_of :: "mem \<Rightarrow> nat \<Rightarrow> string option" where
  "block_of m b = (if b < length (heap m) then heap m ! b else None)"

text \<open>\<open>aws_mem_acquire\<close>: a fresh block, or NULL when the allocator fails.\<close>

definition aws_mem_acquire :: "mem \<Rightarrow> nat option \<times> mem" where
  "aws_mem_acquire m =
     (case alloc_plan m of
        False # plan \<Rightarrow> (None, m\<lparr>alloc_plan := plan\<rparr>)
      | True # plan \<Rightarrow> (Some (length (heap m)), m\<lparr>heap := heap m @ [Some []], alloc_plan := plan\<rparr>)
      | [] \<Rightarrow> (Some (length (heap m)), m\<lparr>heap := heap m @ [Some []]\<rparr>))"

definition aws_mem_release :: "nat \<Rightarrow> mem \<Rightarrow> mem" where
  "aws_mem_release b m = (if b < length (heap m) then m\<lparr>heap := (heap m)[b := None]\<rparr> else m)"

text \<open>\<open>memcpy\<close> of \<open>src\<close> to offset \<open>off\<close> of block \<open>b\<close>.\<close>

definition mem_write :: "nat \<Rightarrow> nat \<Rightarrow> string \<Rightarrow> mem \<Rightarrow> mem" where
  "mem_write b off src m =
     (case block_of m b of
        None \<Rightarrow> m
      | Some bs \<Rightarrow> m\<lparr>heap := (heap m)[b := Some (take off bs @ src @ drop (off + length src) bs)]\<rparr>)"

text \<open>What a cursor denotes in a memory: the bytes it points to, when they are there.\<close>

definition resolve :: "mem \<Rightarrow> aws_byte_cursor \<Rightarrow> string option" where
  "resolve m c =
     (case block_of m (fst (cur_ptr c)) of
        None \<Rightarrow> None
      | Some bs \<Rightarrow>
          if snd (cur_ptr c) + cur_len c \<le> length bs
          then Some (take (cur_len c) (drop (snd (cur_ptr c)) bs))
          else None)"

definition resolve_header :: "mem \<Rightarrow> aws_http_header \<Rightarrow> (string \<times> string) option" where
  "resolve_header m h =
     (case (resolve m (hdr_name h), resolve m (hdr_value h)) of
        (Some n, Some v) \<Rightarrow> Some (n, v)
      | _ \<Rightarrow> None)"

text \<open>\<open>size_t\<close> is 64 bits wide; its addition wraps around.\<close>

definition size_add :: "nat \<Rightarrow> nat \<Rightarrow> nat" where
  "size_add a b = (a + b) mod 2 ^ 64"

text \<open>
  Modelled from the spec: the byte buffer of aws-c-common (\<open>aws_byte_buf_init\<close>,
  \<open>aws_byte_buf_write_from_whole_cursor\<close>, \<open>aws_byte_buf_append_dynamic\<close>) is not part
  of this source tree. \<open>reserveFixed(capacity)\<close> allocates exactly \<open>capacity\<close> bytes
  once and every later \<open>write(bytes)\<close> must fit in the remaining capacity or fails;
  \<open>reserveGrowable\<close> has the same write contract, "but may internally reallocate and
  copy existing bytes forward when capacity is exceeded": the new capacity is the larger
  of twice the old one and what the append needs, the bytes move to a newly acquired
  block and the old block is released.
\<close>

definition aws_byte_buf_init :: "nat \<Rightarrow> mem \<Rightarrow> aws_byte_buf option \<times> mem" where
  "aws_byte_buf_init cap m =
     (case aws_mem_acquire m of
        (None, m') \<Rightarrow> (None, m')
      | (Some b, m') \<Rightarrow> (Some \<lparr>buf_buffer = b, buf_len = 0, buf_capacity = cap\<rparr>, m'))"

definition aws_byte_buf_write_from_whole_cursor ::
    "aws_byte_buf \<Rightarrow> string \<Rightarrow> mem \<Rightarrow> bool \<times> aws_byte_buf \<times> mem" where
  "aws_byte_buf_write_from_whole_cursor buf src m =
     (if buf_capacity buf - buf_len buf < length src then (False, buf, m)
      else (True, buf\<lparr>buf_len := buf_len buf + length src\<rparr>,
            mem_write (buf_buffer buf) (buf_len buf) src m))"

definition aws_byte_buf_append_dynamic ::
    "aws_byte_buf \<Rightarrow> string \<Rightarrow> mem \<Rightarrow> bool \<times> aws_byte_buf \<times> mem" where
  "aws_byte_buf_append_dynamic to src m =
     (if buf_capacity to - buf_len to < length src then
        (let missing_capacity = length src - (buf_capacity to - buf_len to);
             required_capacity = buf_capacity to + missing_capacity;
             growth_capacity = min (buf_capacity to + buf_capacity to) (2 ^ 64 - 1);
             new_capacity = max required_capacity growth_capacity
         in if 2 ^ 64 \<le> required_capacity then (False, to, m)
            else (case aws_mem_acquire m of
                    (None, m') \<Rightarrow> (False, to, m')
                  | (Some nb, m') \<Rightarrow>
                      (let old = (case block_of m' (buf_buffer to) of None \<Rightarrow> [] | Some bs \<Rightarrow> take (buf_len to) bs);
                           m1 = mem_write nb 0 old m';
                           m2 = mem_write nb (buf_len to) src m1;
                           m3 = aws_mem_release (buf_buffer to) m2
                       in (True,
                           to\<lparr>buf_buffer := nb, buf_capacity := new_capacity,
                              buf_len := buf_len to + length src\<rparr>, m3))))
      else (True, to\<lparr>buf_len := buf_len to + length src\<rparr>,
            mem_write (buf_buffer to) (buf_len to) src m))"

text \<open>
  Modelled from the spec: the array list of aws-c-common is not part of this source
  tree. It is the ordered sequence of the header records pushed so far; a push beyond
  the allocated slots asks the allocator for a larger array and fails when that fails.
\<close>

record aws_array_list =
  al_items :: "aws_http_header list"
  al_slots :: nat
  al_block :: nat

definition aws_array_list_init_dynamic :: "nat \<Rightarrow> mem \<Rightarrow> aws_array_list option \<times> mem" where
  "aws_array_list_init_dynamic n m =
     (case aws_mem_acquire m of
        (None, m') \<Rightarrow> (None, m')
      | (Some b, m') \<Rightarrow> (Some \<lparr>al_items = [], al_slots = n, al_block = b\<rparr>, m'))"

definition aws_array_list_push_back ::
    "aws_array_list \<Rightarrow> aws_http_header \<Rightarrow> mem \<Rightarrow> bool \<times> aws_array_list \<times> mem" where
  "aws_array_list_push_back l h m =
     (if length (al_items l) < al_slots l then (True, l\<lparr>al_items := al_items l @ [h]\<rparr>, m)
      else (case aws_mem_acquire m of
              (None, m') \<Rightarrow> (False, l, m')
            | (Some b, m') \<Rightarrow>
                (True, \<lparr>al_items = al_items l @ [h],
                        al_slots = max (2 * al_slots l) (length (al_items l) + 1),
                        al_block = b\<rparr>, aws_mem_release (al_block l) m')))"

subsection \<open>The bootstrap and its surroundings\<close>

text \<open>
  A function pointer is modelled by whether it is set (\<open>True\<close>) or NULL; a pointer to
  an object of a collaborator (connection, stream, websocket) by a handle. An array
  passed as pointer and count is a list, and \<open>None\<close> when the pointer is NULL. The
  bytes behind a cursor that the caller or the HTTP layer passes in are a \<open>string\<close>.
\<close>

record aws_uri =
  uri_scheme :: string
  uri_host_name :: string
  uri_port :: "16 word"
  uri_path_and_query :: string

record aws_websocket_client_connection_options =
  allocator :: bool
  bootstrap :: bool
  socket_options :: bool
  tls_options :: bool
  uri :: "aws_uri option"
  opt_initial_window_size :: nat
  opt_user_data :: nat
  handshake_header_array :: "(string \<times> string) list option"
  on_connection_setup :: bool
  on_connection_shutdown :: bool
  on_incoming_frame_begin :: bool
  on_incoming_frame_payload :: bool
  on_incoming_frame_complete :: bool

record aws_websocket_client_bootstrap =
  initial_window_size :: nat
  user_data :: nat
  websocket_setup_callback :: bool
  websocket_shutdown_callback :: bool
  websocket_frame_begin_callback :: bool
  websocket_frame_payload_callback :: bool
  websocket_frame_complete_callback :: bool
  request_path :: aws_byte_cursor
  request_header_array :: "aws_http_header list"
  request_header_block :: nat
  request_storage :: aws_byte_buf
  response_status :: int
  response_headers :: aws_array_list
  response_storage :: aws_byte_buf
  setup_error_code :: int
  websocket :: "nat option"

text \<open>From request\_response\_impl.h: the fields of a stream that the bootstrap reads.\<close>

record aws_http_stream =
  owning_connection :: nat
  incoming_response_status :: int

text \<open>
  The log: every call the bootstrap makes on the HTTP layer, on the websocket handler
  factory and on the user's callbacks, with its arguments, and its own destruction.
\<close>

datatype event =
    Http_Client_Connect string "16 word" bool
  | Stream_New_Client_Request string aws_byte_cursor "aws_http_header list"
  | Websocket_Handler_New nat nat bool bool bool
  | Connection_Close nat
  | Connection_Release nat
  | Stream_Release
  | Setup_Callback "nat option" int int "aws_http_header list" nat
  | Shutdown_Callback "nat option" int nat
  | Bootstrap_Destroyed

record world =
  memory :: mem
  last_error :: int
  events :: "event list"
  boot :: aws_websocket_client_bootstrap
  boot_block :: nat
  destroyed :: bool

definition emit :: "event \<Rightarrow> world \<Rightarrow> world" where
  "emit e w = w\<lparr>events := events w @ [e]\<rparr>"

definition aws_raise_error :: "int \<Rightarrow> world \<Rightarrow> world" where
  "aws_raise_error e w = w\<lparr>last_error := e\<rparr>"

subsection \<open>Inferring the port (aws\_websocket\_client\_connect, lines 214-228)\<close>

text \<open>
  Modelled from the spec: \<open>aws_byte_cursor_eq_ignore_case\<close> of aws-c-common is not part
  of this source tree; schemes are "matched case-insensitively", that is, byte by byte
  after mapping the ASCII letters A-Z to a-z.
\<close>

definition to_lower :: "char \<Rightarrow> char" where
  "to_lower c =
     (let n = (of_char c :: nat) in if 65 \<le> n \<and> n \<le> 90 then char_of (n + 32) else c)"

definition aws_byte_cursor_eq_ignore_case :: "string \<Rightarrow> string \<Rightarrow> bool" where
  "aws_byte_cursor_eq_ignore_case a b = (map to_lower a = map to_lower b)"

definition s_scheme_ports :: "(string \<times> 16 word) list" where
  "s_scheme_ports = [(''http'', 80), (''https'', 443), (''ws'', 80), (''wss'', 443)]"

text \<open>The loop over the table: the first matching row sets the port and ends the loop.\<close>

fun scheme_port_loop :: "string \<Rightarrow> (string \<times> 16 word) list \<Rightarrow> 16 word \<Rightarrow> 16 word" where
  "scheme_port_loop scheme [] port = port"
| "scheme_port_loop scheme ((s, p) # table) port =
     (if aws_byte_cursor_eq_ignore_case scheme s then p else scheme_port_loop scheme table port)"

definition connect_port :: "aws_uri \<Rightarrow> bool \<Rightarrow> 16 word" where
  "connect_port u tls =
     (if uri_port u \<noteq> 0 then uri_port u
      else (let port = scheme_port_loop (uri_scheme u) s_scheme_ports (uri_port u)
            in if port = 0 then (if tls then 443 else 80) else port))"

subsection \<open>aws\_websocket\_client\_connect\<close>

text \<open>Lines 143-147: the size of the request storage, summed in \<open>size_t\<close>.\<close>

definition request_storage_size :: "string \<Rightarrow> (string \<times> string) list \<Rightarrow> nat" where
  "request_storage_size path hs =
     fold (\<lambda>(n, v) sz. size_add (size_add sz (length n)) (length v)) hs (length path)"

text \<open>
  Lines 166-177: each header's name and value are written to the request storage, and
  the record keeps the address each write starts at. \<open>write_success\<close> accumulates.
\<close>

fun copy_request_headers ::
    "(string \<times> string) list \<Rightarrow> bool \<times> aws_byte_buf \<times> mem \<times> aws_http_header list
       \<Rightarrow> bool \<times> aws_byte_buf \<times> mem \<times> aws_http_header list" where
  "copy_request_headers [] acc = acc"
| "copy_request_headers ((n, v) # hs) (write_success, buf, m, dst) =
     (let name = \<lparr>cur_ptr = (buf_buffer buf, buf_len buf), cur_len = length n\<rparr>;
          (ok1, buf1, m1) = aws_byte_buf_write_from_whole_cursor buf n m;
          val = \<lparr>cur_ptr = (buf_buffer buf1, buf_len buf1), cur_len = length v\<rparr>;
          (ok2, buf2, m2) = aws_byte_buf_write_from_whole_cursor buf1 v m1
      in copy_request_headers hs
           (write_success \<and> ok1 \<and> ok2, buf2, m2, dst @ [\<lparr>hdr_name = name, hdr_value = val\<rparr>]))"

text \<open>
  Lines 142-177: the deep copy of the request path and headers. \<open>None\<close> when an
  allocation fails (\<open>goto error\<close>); otherwise the value of \<open>write_success\<close>, the request
  storage, the path cursor, the header records, the block of the header array and the
  memory.
\<close>

definition connect_copy_request ::
    "string \<Rightarrow> (string \<times> string) list \<Rightarrow> mem
       \<Rightarrow> (bool \<times> aws_byte_buf \<times> aws_byte_cursor \<times> aws_http_header list \<times> nat \<times> mem) option" where
  "connect_copy_request path hs m =
     (case aws_byte_buf_init (request_storage_size path hs) m of
        (None, m1) \<Rightarrow> None
      | (Some rs, m1) \<Rightarrow>
          (let path_cursor = \<lparr>cur_ptr = (buf_buffer rs, buf_len rs), cur_len = length path\<rparr>;
               (ok0, rs1, m2) = aws_byte_buf_write_from_whole_cursor rs path m1
           in (case aws_mem_acquire m2 of
                 (None, m3) \<Rightarrow> None
               | (Some hb, m3) \<Rightarrow>
                   (let (write_success, rs2, m4, dst) = copy_request_headers hs (ok0, rs1, m3, [])
                    in Some (write_success, rs2, path_cursor, dst, hb, m4)))))"

text \<open>
  Lines 125-259: the bootstrap is created and the HTTP connection started.
  \<open>http_connect_err\<close> is what \<open>aws_http_client_connect\<close> raises (0: it succeeds).
  The result is \<open>Inl e\<close> when the function returns \<open>AWS_OP_ERR\<close> with last error \<open>e\<close>
  (everything allocated has been destroyed), and \<open>Inr w\<close> when it returns
  \<open>AWS_OP_SUCCESS\<close>. \<open>AWS_ASSERT\<close> is compiled out of release builds and does not
  change the control flow.
\<close>

definition connect_create ::
    "aws_websocket_client_connection_options \<Rightarrow> aws_uri \<Rightarrow> (string \<times> string) list \<Rightarrow> mem \<Rightarrow> int
       \<Rightarrow> int + world" where
  "connect_create options u hs m0 http_connect_err =
     (case aws_mem_acquire m0 of
        (None, m1) \<Rightarrow> Inl AWS_ERROR_OOM
      | (Some bb, m1) \<Rightarrow>
     (case connect_copy_request (uri_path_and_query u) hs m1 of
        None \<Rightarrow> Inl AWS_ERROR_OOM
      | Some (write_success, rs, path_cursor, dst, hb, m2) \<Rightarrow>
     (let estimated_response_headers = size_add (length hs) 10;
          estimated_response_header_length = 64
      in
     (case aws_array_list_init_dynamic estimated_response_headers m2 of
        (None, m3) \<Rightarrow> Inl AWS_ERROR_OOM
      | (Some rh, m3) \<Rightarrow>
     (case aws_byte_buf_init
             ((estimated_response_headers * estimated_response_header_length) mod 2 ^ 64) m3 of
        (None, m4) \<Rightarrow> Inl AWS_ERROR_OOM
      | (Some rsp, m4) \<Rightarrow>
          if http_connect_err \<noteq> 0 then Inl http_connect_err
          else Inr
            \<lparr>memory = m4, last_error = 0,
             events = [Http_Client_Connect (uri_host_name u)
                         (connect_port u (tls_options options)) (tls_options options)],
             boot =
               \<lparr>initial_window_size = opt_initial_window_size options,
                user_data = opt_user_data options,
                websocket_setup_callback = on_connection_setup options,
                websocket_shutdown_callback = on_connection_shutdown options,
                websocket_frame_begin_callback = on_incoming_frame_begin options,
                websocket_frame_payload_callback = on_incoming_frame_payload options,
                websocket_frame_complete_callback = on_incoming_frame_complete options,
                request_path = path_cursor,
                request_header_array = dst,
                request_header_block = hb,
                request_storage = rs,
                response_status = AWS_HTTP_STATUS_UNKNOWN,
                response_headers = rh,
                response_storage = rsp,
                setup_error_code = 0,
                websocket = None\<rparr>,
             boot_block = bb,
             destroyed = False\<rparr>)))))"

text \<open>Lines 92-123: the validation of the options, then the creation.\<close>

definition aws_websocket_client_connect ::
    "aws_websocket_client_connection_options \<Rightarrow> mem \<Rightarrow> int \<Rightarrow> int + world" where
  "aws_websocket_client_connect options m0 http_connect_err =
     (if \<not> allocator options \<or> \<not> bootstrap options \<or> \<not> socket_options options \<or>
         uri options = None \<or> \<not> on_connection_setup options
      then Inl AWS_ERROR_INVALID_ARGUMENT
      else
        (let all_frame_callbacks_set =
               (on_incoming_frame_begin options \<and> on_incoming_frame_payload options \<and>
                on_incoming_frame_begin options);
             no_frame_callbacks_set =
               (\<not> on_incoming_frame_begin options \<and> \<not> on_incoming_frame_payload options \<and>
                \<not> on_incoming_frame_begin options)
         in if all_frame_callbacks_set \<or> no_frame_callbacks_set
            then Inl AWS_ERROR_INVALID_ARGUMENT
            else
              (case (handshake_header_array options, uri options) of
                 (Some hs, Some u) \<Rightarrow>
                   if length hs = 0 then Inl AWS_ERROR_INVALID_ARGUMENT
                   else connect_create options u hs m0 http_connect_err
               | _ \<Rightarrow> Inl AWS_ERROR_INVALID_ARGUMENT)))"

subsection \<open>s\_ws\_bootstrap\_destroy and s\_ws\_bootstrap\_cancel\_setup\_due\_to\_err\<close>

definition s_ws_bootstrap_destroy :: "world \<Rightarrow> world" where
  "s_ws_bootstrap_destroy w =
     (let b = boot w;
          m1 = aws_mem_release (request_header_block b) (memory w);
          m2 = aws_mem_release (buf_buffer (request_storage b)) m1;
          m3 = aws_mem_release (al_block (response_headers b)) m2;
          m4 = aws_mem_release (buf_buffer (response_storage b)) m3;
          m5 = aws_mem_release (boot_block w) m4
      in emit Bootstrap_Destroyed (w\<lparr>memory := m5, destroyed := True\<rparr>))"

text \<open>
  Lines 279-299. The two \<open>AWS_ASSERT\<close>s (a non-zero error code, a connection) are what
  every caller provides; they are compiled out of release builds.
\<close>

definition s_ws_bootstrap_cancel_setup_due_to_err :: "nat \<Rightarrow> int \<Rightarrow> world \<Rightarrow> world" where
  "s_ws_bootstrap_cancel_setup_due_to_err http_connection error_code w =
     (if setup_error_code (boot w) = 0
      then emit (Connection_Close http_connection)
             (w\<lparr>boot := (boot w)\<lparr>setup_error_code := error_code\<rparr>\<rparr>)
      else w)"

subsection \<open>s\_ws\_bootstrap\_on\_http\_setup\<close>

text \<open>
  What stops the program: a failed \<open>AWS_FATAL_ASSERT\<close>, a call through a NULL
  function pointer, a callback on a bootstrap that has been destroyed.
\<close>

datatype fault = Fatal_Assert | Null_Callback | Use_After_Free

text \<open>
  Lines 302-360. \<open>new_request\<close> is what \<open>aws_http_stream_new_client_request\<close> does:
  \<open>Inl e\<close> when it returns NULL and raises \<open>e\<close>, \<open>Inr s\<close> when it returns a stream.
\<close>

definition s_ws_bootstrap_on_http_setup ::
    "nat option \<Rightarrow> int \<Rightarrow> int + nat \<Rightarrow> world \<Rightarrow> fault + world" where
  "s_ws_bootstrap_on_http_setup http_connection error_code new_request w =
     (if (error_code \<noteq> 0) \<noteq> (http_connection = None) then Inl Fatal_Assert
      else
        (case http_connection of
           None \<Rightarrow>
             if websocket_setup_callback (boot w)
             then Inr (s_ws_bootstrap_destroy
                    (emit (Setup_Callback None error_code AWS_HTTP_STATUS_UNKNOWN []
                             (user_data (boot w))) w))
             else Inl Null_Callback
         | Some c \<Rightarrow>
             (let w1 = emit (Stream_New_Client_Request ''GET'' (request_path (boot w))
                               (request_header_array (boot w))) w
              in (case new_request of
                    Inr handshake_stream \<Rightarrow> Inr w1
                  | Inl e \<Rightarrow>
                      (let w2 = aws_raise_error e w1
                       in Inr (s_ws_bootstrap_cancel_setup_due_to_err c (last_error w2) w2))))))"

subsection \<open>s\_ws\_bootstrap\_on\_http\_shutdown\<close>

text \<open>
  Lines 364-420. The header array passed to the setup callback is the array of the
  records captured so far, NULL with count 0 when there is none: the list of records.
\<close>

definition s_ws_bootstrap_on_http_shutdown :: "nat \<Rightarrow> int \<Rightarrow> world \<Rightarrow> world" where
  "s_ws_bootstrap_on_http_shutdown http_connection error_code w =
     (let b = boot w;
          w1 =
            (if websocket_setup_callback b then
               (let error_code1 =
                      (if error_code = 0
                       then (if setup_error_code b = 0 then AWS_ERROR_UNKNOWN
                             else setup_error_code b)
                       else error_code)
                in emit (Setup_Callback None error_code1 (response_status b)
                           (al_items (response_headers b)) (user_data b)) w)
             else if websocket_shutdown_callback b then
               emit (Shutdown_Callback (websocket b) error_code (user_data b)) w
             else w)
      in s_ws_bootstrap_destroy (emit (Connection_Release http_connection) w1))"

subsection \<open>s\_ws\_bootstrap\_on\_handshake\_response\_headers\<close>

text \<open>
  Lines 432-454, the loop. Each record takes the address \<open>buffer + len\<close> of the
  response storage before the append that may move the buffer. The result's first
  component tells whether the loop left through \<open>goto error\<close>; a failed allocation
  raises \<open>AWS_ERROR_OOM\<close>.
\<close>

fun response_headers_loop :: "(string \<times> string) list \<Rightarrow> world \<Rightarrow> bool \<times> world" where
  "response_headers_loop [] w = (False, w)"
| "response_headers_loop ((n, v) # header_array) w =
     (let b = boot w;
          name = \<lparr>cur_ptr = (buf_buffer (response_storage b), buf_len (response_storage b)),
                  cur_len = length n\<rparr>;
          (ok1, rs1, m1) = aws_byte_buf_append_dynamic (response_storage b) n (memory w)
      in if \<not> ok1
         then (True, aws_raise_error AWS_ERROR_OOM
                       (w\<lparr>memory := m1, boot := b\<lparr>response_storage := rs1\<rparr>\<rparr>))
         else
           (let val = \<lparr>cur_ptr = (buf_buffer rs1, buf_len rs1), cur_len = length v\<rparr>;
                (ok2, rs2, m2) = aws_byte_buf_append_dynamic rs1 v m1
            in if \<not> ok2
               then (True, aws_raise_error AWS_ERROR_OOM
                             (w\<lparr>memory := m2, boot := b\<lparr>response_storage := rs2\<rparr>\<rparr>))
               else
                 (let (ok3, rh3, m3) =
                        aws_array_list_push_back (response_headers b)
                          \<lparr>hdr_name = name, hdr_value = val\<rparr> m2;
                      w3 = w\<lparr>memory := m3,
                             boot := b\<lparr>response_storage := rs2, response_headers := rh3\<rparr>\<rparr>
                  in if \<not> ok3 then (True, aws_raise_error AWS_ERROR_OOM w3)
                     else response_headers_loop header_array w3)))"

definition s_ws_bootstrap_on_handshake_response_headers ::
    "aws_http_stream \<Rightarrow> (string \<times> string) list \<Rightarrow> world \<Rightarrow> world" where
  "s_ws_bootstrap_on_handshake_response_headers stream header_array w =
     (case response_headers_loop header_array w of
        (False, w') \<Rightarrow> w'
      | (True, w') \<Rightarrow>
          s_ws_bootstrap_cancel_setup_due_to_err (owning_connection stream) (last_error w') w')"

subsection \<open>s\_ws\_bootstrap\_on\_handshake\_complete\<close>

text \<open>
  Lines 468-553. \<open>handler_new\<close> is what \<open>aws_websocket_handler_new\<close> does: \<open>Inl e\<close>
  when it returns NULL and raises \<open>e\<close>, \<open>Inr ws\<close> when it returns a websocket.
\<close>

definition handshake_complete_error :: "aws_http_stream \<Rightarrow> int \<Rightarrow> world \<Rightarrow> world" where
  "handshake_complete_error stream error_code w =
     (let error_code1 = (if error_code = 0 then last_error w else error_code)
      in emit Stream_Release
           (s_ws_bootstrap_cancel_setup_due_to_err (owning_connection stream) error_code1 w))"

definition s_ws_bootstrap_on_handshake_complete ::
    "aws_http_stream \<Rightarrow> int \<Rightarrow> int + nat \<Rightarrow> world \<Rightarrow> fault + world" where
  "s_ws_bootstrap_on_handshake_complete stream error_code handler_new w =
     (if error_code \<noteq> 0 then Inr (handshake_complete_error stream error_code w)
      else
        (let w1 = w\<lparr>boot := (boot w)\<lparr>response_status := incoming_response_status stream\<rparr>\<rparr>
         in if response_status (boot w1) \<noteq> AWS_HTTP_STATUS_101_SWITCHING_PROTOCOLS
            then Inr (handshake_complete_error stream error_code
                        (aws_raise_error AWS_ERROR_HTTP_WEBSOCKET_UPGRADE_FAILURE w1))
            else
              (let w2 = emit (Websocket_Handler_New (initial_window_size (boot w1))
                                (user_data (boot w1))
                                (websocket_frame_begin_callback (boot w1))
                                (websocket_frame_payload_callback (boot w1))
                                (websocket_frame_complete_callback (boot w1))) w1
               in (case handler_new of
                     Inl e \<Rightarrow>
                       Inr (handshake_complete_error stream error_code
                              (aws_raise_error e (w2\<lparr>boot := (boot w2)\<lparr>websocket := None\<rparr>\<rparr>)))
                   | Inr ws \<Rightarrow>
                       (let w3 = w2\<lparr>boot := (boot w2)\<lparr>websocket := Some ws\<rparr>\<rparr>
                        in if websocket_setup_callback (boot w3)
                           then Inr (emit Stream_Release
                                  ((emit (Setup_Callback (websocket (boot w3)) 0
                                            (response_status (boot w3))
                                            (al_items (response_headers (boot w3)))
                                            (user_data (boot w3))) w3)
                                   \<lparr>boot := (boot w3)\<lparr>websocket_setup_callback := False\<rparr>\<rparr>))
                           else Inl Null_Callback)))))"

subsection \<open>Example inputs\<close>

definition example_uri :: aws_uri where
  "example_uri =
     \<lparr>uri_scheme = ''ws'', uri_host_name = ''example.com'', uri_port = 0,
      uri_path_and_query = ''/chat''\<rparr>"

text \<open>Every required option, one handshake header, a shutdown callback, no frame callback.\<close>

definition example_options :: aws_websocket_client_connection_options where
  "example_options =
     \<lparr>allocator = True, bootstrap = True, socket_options = True, tls_options = False,
      uri = Some example_uri, opt_initial_window_size = 256, opt_user_data = 7,
      handshake_header_array = Some [(''Upgrade'', ''websocket'')],
      on_connection_setup = True, on_connection_shutdown = True,
      on_incoming_frame_begin = False, on_incoming_frame_payload = False,
      on_incoming_frame_complete = False\<rparr>"

text \<open>An empty memory whose allocator never fails.\<close>

definition empty_mem :: mem where
  "empty_mem = \<lparr>heap = [], alloc_plan = []\<rparr>"

text \<open>
  A configuration that the validation lets through (one frame callback set), and the
  world that \<open>aws_websocket_client_connect\<close> creates from it.
\<close>

definition accepted_options :: aws_websocket_client_connection_options where
  "accepted_options = example_options\<lparr>on_incoming_frame_begin := True\<rparr>"

definition example_world :: world where
  "example_world =
     \<lparr>memory = \<lparr>heap = [Some [], Some ''/chatUpgradewebsocket'', Some [], Some [], Some []],
                alloc_plan = []\<rparr>,
      last_error = 0,
      events = [Http_Client_Connect ''example.com'' 80 False],
      boot =
        \<lparr>initial_window_size = 256, user_data = 7,
         websocket_setup_callback = True, websocket_shutdown_callback = True,
         websocket_frame_begin_callback = True, websocket_frame_payload_callback = False,
         websocket_frame_complete_callback = False,
         request_path = \<lparr>cur_ptr = (1, 0), cur_len = 5\<rparr>,
         request_header_array =
           [\<lparr>hdr_name = \<lparr>cur_ptr = (1, 5), cur_len = 7\<rparr>,
             hdr_value = \<lparr>cur_ptr = (1, 12), cur_len = 9\<rparr>\<rparr>],
         request_header_block = 2,
         request_storage = \<lparr>buf_buffer = 1, buf_len = 21, buf_capacity = 21\<rparr>,
         response_status = AWS_HTTP_STATUS_UNKNOWN,
         response_headers = \<lparr>al_items = [], al_slots = 11, al_block = 3\<rparr>,
         response_storage = \<lparr>buf_buffer = 4, buf_len = 0, buf_capacity = 704\<rparr>,
         setup_error_code = 0, websocket = None\<rparr>,
      boot_block = 0, destroyed = False\<rparr>"

subsection \<open>Reading the log\<close>

text \<open>The events that a call adds to the log.\<close>

definition new_events :: "world \<Rightarrow> world \<Rightarrow> event list" where
  "new_events w w' = drop (length (events w)) (events w')"

subsection \<open>The callbacks of the HTTP layer\<close>

text \<open>
  The HTTP layer drives the bootstrap through four callbacks, passing the bootstrap as
  \<open>user_data\<close>. A callback on a bootstrap that has been destroyed reads released
  memory.
\<close>

datatype callback =
    On_Http_Setup "nat option" int "int + nat"
  | On_Response_Headers aws_http_stream "(string \<times> string) list"
  | On_Handshake_Complete aws_http_stream int "int + nat"
  | On_Http_Shutdown nat int

definition deliver :: "callback \<Rightarrow> world \<Rightarrow> fault + world" where
  "deliver cb w =
     (if destroyed w then Inl Use_After_Free
      else (case cb of
              On_Http_Setup c e nr \<Rightarrow> s_ws_bootstrap_on_http_setup c e nr w
            | On_Response_Headers s hs \<Rightarrow>
                Inr (s_ws_bootstrap_on_handshake_response_headers s hs w)
            | On_Handshake_Complete s e hn \<Rightarrow> s_ws_bootstrap_on_handshake_complete s e hn w
            | On_Http_Shutdown c e \<Rightarrow> Inr (s_ws_bootstrap_on_http_shutdown c e w)))"

fun run :: "callback list \<Rightarrow> world \<Rightarrow> fault + world" where
  "run [] w = Inr w"
| "run (cb # cbs) w = (case deliver cb w of Inl f \<Rightarrow> Inl f | Inr w' \<Rightarrow> run cbs w')"

text \<open>A sequence of calls of the cancellation, on one connection.\<close>

definition cancel_calls :: "nat \<Rightarrow> int list \<Rightarrow> world \<Rightarrow> world" where
  "cancel_calls c es w = fold (s_ws_bootstrap_cancel_setup_due_to_err c) es w"

text \<open>A stream on connection 1 whose response had status 200.\<close>

definition refusing_stream :: aws_http_stream where
  "refusing_stream = \<lparr>owning_connection = 1, incoming_response_status = 200\<rparr>"

text \<open>
  The byte length of the handshake headers: the sum of the lengths of all names and
  values.
\<close>

definition headers_length :: "(string \<times> string) list \<Rightarrow> nat" where
  "headers_length hs = sum_list (map (\<lambda>(n, v). length n + length v) hs)"

subsection \<open>The user's callbacks in the log\<close>

fun is_setup_callback :: "event \<Rightarrow> bool" where
  "is_setup_callback (Setup_Callback ws e st hs ud) = True"
| "is_setup_callback _ = False"

fun is_shutdown_callback :: "event \<Rightarrow> bool" where
  "is_shutdown_callback (Shutdown_Callback ws e ud) = True"
| "is_shutdown_callback _ = False"

fun is_setup_success :: "event \<Rightarrow> bool" where
  "is_setup_success (Setup_Callback ws e st hs ud) = (ws \<noteq> None \<and> e = 0)"
| "is_setup_success _ = False"

fun shutdown_after_success :: "bool \<Rightarrow> event list \<Rightarrow> bool" where
  "shutdown_after_success ok [] = True"
| "shutdown_after_success ok (x # xs) =
     ((is_shutdown_callback x \<longrightarrow> ok) \<and> shutdown_after_success (ok \<or> is_setup_success x) xs)"

definition user_calls :: "event list \<Rightarrow> event list" where
  "user_calls es = filter (\<lambda>x. is_setup_callback x \<or> is_shutdown_callback x) es"

subsection \<open>The contract of the HTTP layer\<close>

text \<open>
  Modelled from the spec: the HTTP connection service and the stream (code of the
  HTTP layer that is not part of this source tree) call the bootstrap as follows. The setup of the connection is reported once, first, with an error if and
  only if there is no connection; after a failed setup nothing else is reported
  ("This is never called if the HTTP connection failed its setup"). On an established
  connection whose request was sent, the stream's "incoming-headers callback may fire
  multiple times" and its "completion callback fires exactly once", after which the
  stream reports nothing; a connection that shuts down may cut the stream short. The
  shutdown of the connection is reported "exactly once", last.
\<close>

fun only_shutdown :: "callback list \<Rightarrow> bool" where
  "only_shutdown [On_Http_Shutdown c e] = True"
| "only_shutdown _ = False"

fun stream_then_shutdown :: "callback list \<Rightarrow> bool" where
  "stream_then_shutdown (On_Response_Headers s hs # cbs) = stream_then_shutdown cbs"
| "stream_then_shutdown (On_Handshake_Complete s e hn # cbs) = only_shutdown cbs"
| "stream_then_shutdown cbs = only_shutdown cbs"

fun http_contract :: "callback list \<Rightarrow> bool" where
  "http_contract (On_Http_Setup None e nr # cbs) = (e \<noteq> 0 \<and> cbs = [])"
| "http_contract (On_Http_Setup (Some c) e (Inl err) # cbs) = (e = 0 \<and> only_shutdown cbs)"
| "http_contract (On_Http_Setup (Some c) e (Inr s) # cbs) = (e = 0 \<and> stream_then_shutdown cbs)"
| "http_contract _ = False"

text \<open>
  The three stages of a bootstrap, with \<open>sd\<close> telling whether a shutdown callback is
  configured: the setup callback is pending and no user callback has been called; the
  setup callback has reported success and nothing else has been called; the bootstrap
  is destroyed and the user's callbacks have been called in one of the three ways.
\<close>

definition pending :: "bool \<Rightarrow> world \<Rightarrow> bool" where
  "pending sd w \<longleftrightarrow>
     \<not> destroyed w \<and> websocket_setup_callback (boot w) \<and>
     websocket_shutdown_callback (boot w) = sd \<and> user_calls (events w) = []"

definition established :: "bool \<Rightarrow> world \<Rightarrow> bool" where
  "established sd w \<longleftrightarrow>
     \<not> destroyed w \<and> \<not> websocket_setup_callback (boot w) \<and>
     websocket_shutdown_callback (boot w) = sd \<and>
     (\<exists>ws st hs. websocket (boot w) = Some ws \<and>
        user_calls (events w) = [Setup_Callback (Some ws) 0 st hs (user_data (boot w))])"

definition finished :: "bool \<Rightarrow> world \<Rightarrow> bool" where
  "finished sd w \<longleftrightarrow>
     destroyed w \<and>
     ((\<exists>e st hs ud. e \<noteq> 0 \<and> user_calls (events w) = [Setup_Callback None e st hs ud]) \<or>
      (\<exists>ws st hs ud. \<not> sd \<and> user_calls (events w) = [Setup_Callback (Some ws) 0 st hs ud]) \<or>
      (\<exists>ws st hs ud e. sd \<and>
         user_calls (events w) =
           [Setup_Callback (Some ws) 0 st hs ud, Shutdown_Callback (Some ws) e ud]))"

text \<open>A stream on connection 1 whose response had status 101, and a complete run.\<close>

definition upgrading_stream :: aws_http_stream where
  "upgrading_stream = \<lparr>owning_connection = 1, incoming_response_status = 101\<rparr>"

definition example_run :: "callback list" where
  "example_run =
     [On_Http_Setup (Some 1) 0 (Inr 0),
      On_Response_Headers upgrading_stream [(''Upgrade'', ''websocket'')],
      On_Handshake_Complete upgrading_stream 0 (Inr 3),
      On_Http_Shutdown 1 0]"

text \<open>A response header of 710 bytes: a cookie of 700 bytes.\<close>

definition long_header :: "string \<times> string" where
  "long_header = (''Set-Cookie'', replicate 700 CHR ''v'')"

subsection \<open>The layout of deep-copied headers\<close>

text \<open>
  The bytes of a header list written one after the other, and the records that point
  at them when the first byte is at offset \<open>off\<close> of block \<open>b\<close>.
\<close>

definition flat :: "(string \<times> string) list \<Rightarrow> string" where
  "flat hs = concat (map (\<lambda>(n, v). n @ v) hs)"

fun records_at :: "nat \<Rightarrow> nat \<Rightarrow> (string \<times> string) list \<Rightarrow> aws_http_header list" where
  "records_at b off [] = []"
| "records_at b off ((n, v) # hs) =
     \<lparr>hdr_name = \<lparr>cur_ptr = (b, off), cur_len = length n\<rparr>,
      hdr_value = \<lparr>cur_ptr = (b, off + length n), cur_len = length v\<rparr>\<rparr>
     # records_at b (off + length n + length v) hs"

text \<open>The header callback called once for each batch, in order.\<close>

definition deliver_batches ::
    "aws_http_stream \<Rightarrow> (string \<times> string) list list \<Rightarrow> world \<Rightarrow> world" where
  "deliver_batches stream batches w =
     fold (s_ws_bootstrap_on_handshake_response_headers stream) batches w"

text \<open>What the response storage and the header records look like while nothing has moved.\<close>

definition captured :: "(string \<times> string) list \<Rightarrow> world \<Rightarrow> bool" where
  "captured hs w \<longleftrightarrow>
     block_of (memory w) (buf_buffer (response_storage (boot w))) = Some (flat hs) \<and>
     buf_len (response_storage (boot w)) = headers_length hs \<and>
     al_items (response_headers (boot w)) =
       records_at (buf_buffer (response_storage (boot w))) 0 hs"

text \<open>
  What the cancellation maintains: once a sticky error is recorded, the close of the
  connection has been requested.
\<close>

definition close_requested :: "world \<Rightarrow> bool" where
  "close_requested w \<longleftrightarrow>
     (setup_error_code (boot w) \<noteq> 0 \<longrightarrow> (\<exists>c. Connection_Close c \<in> set (events w)))"

text \<open>The example world with an allocator that refuses the next allocation.\<close>

definition starved_world :: world where
  "starved_world = example_world\<lparr>memory := (memory example_world)\<lparr>alloc_plan := [False]\<rparr>\<rparr>"

section \<open>Properties\<close>

subsection \<open>The validation of the frame callbacks\<close>

text \<open>
  C1. With every required option present and at least one handshake header, the spec
  says that the call fails synchronously exactly when the three frame callbacks are
  partially set. The code does the opposite: whenever \<open>on_incoming_frame_begin\<close> and
  \<open>on_incoming_frame_payload\<close> are both set or both NULL, which covers "all three
  set" and "none set", the call returns \<open>AWS_ERROR_INVALID_ARGUMENT\<close>, whatever the
  allocator and the HTTP layer would do (\<open>on_incoming_frame_complete\<close> is never read).
  A group with only \<open>on_incoming_frame_begin\<close> set passes (\<open>connect_example\<close> below).
\<close>

theorem connect_rejects_all_or_none:
  "aws_websocket_client_connect
     (options\<lparr>allocator := True, bootstrap := True, socket_options := True, uri := Some u,
              on_connection_setup := True, handshake_header_array := Some (h # hs),
              on_incoming_frame_begin := b, on_incoming_frame_payload := b\<rparr>) m e
   = Inl AWS_ERROR_INVALID_ARGUMENT"
  by (simp add: aws_websocket_client_connect_def)

theorem connect_rejects_none_set:
  "aws_websocket_client_connect example_options empty_mem 0 = Inl AWS_ERROR_INVALID_ARGUMENT"
  using connect_rejects_all_or_none
          [where options = example_options and u = example_uri
             and h = "(''Upgrade'', ''websocket'')" and hs = "[]" and b = False
             and m = empty_mem and e = 0]
  by (simp add: example_options_def)

subsection \<open>The port\<close>

lemma eq_ignore_case_length:
  "aws_byte_cursor_eq_ignore_case a b \<Longrightarrow> length a = length b"
  unfolding aws_byte_cursor_eq_ignore_case_def by (rule map_eq_imp_length_eq)

text \<open>
  C6. An explicit non-zero port of the URI is the port of the connection; otherwise
  the port is 80 for the schemes http and ws, 443 for https and wss, compared without
  regard to case; otherwise it is 443 when TLS options are given and 80 when not.
\<close>

theorem connect_port_table:
  "connect_port u tls =
     (if uri_port u \<noteq> 0 then uri_port u
      else if aws_byte_cursor_eq_ignore_case (uri_scheme u) ''http'' \<or>
              aws_byte_cursor_eq_ignore_case (uri_scheme u) ''ws'' then 80
      else if aws_byte_cursor_eq_ignore_case (uri_scheme u) ''https'' \<or>
              aws_byte_cursor_eq_ignore_case (uri_scheme u) ''wss'' then 443
      else if tls then 443 else 80)"
proof -
  have "\<not> (aws_byte_cursor_eq_ignore_case (uri_scheme u) ''https'' \<and>
            aws_byte_cursor_eq_ignore_case (uri_scheme u) ''ws'')"
    by (auto dest!: eq_ignore_case_length)
  then show ?thesis
    by (auto simp: connect_port_def s_scheme_ports_def)
qed

text \<open>The scenarios of the spec, and a scheme in capitals and an unknown scheme.\<close>

lemma port_scenarios:
  "connect_port \<lparr>uri_scheme = ''ws'', uri_host_name = ''example.com'', uri_port = 0,
                 uri_path_and_query = ''/chat''\<rparr> False = 80"
  "connect_port \<lparr>uri_scheme = ''wss'', uri_host_name = ''example.com'', uri_port = 0,
                 uri_path_and_query = ''/chat''\<rparr> False = 443"
  "connect_port \<lparr>uri_scheme = ''http'', uri_host_name = ''example.com'', uri_port = 9000,
                 uri_path_and_query = ''/x''\<rparr> False = 9000"
  "connect_port \<lparr>uri_scheme = ''HTTPS'', uri_host_name = ''example.com'', uri_port = 0,
                 uri_path_and_query = ''/x''\<rparr> False = 443"
  "connect_port \<lparr>uri_scheme = ''ftp'', uri_host_name = ''example.com'', uri_port = 0,
                 uri_path_and_query = ''/x''\<rparr> True = 443"
  by code_simp+

text \<open>The port that \<open>aws_websocket_client_connect\<close> passes to the HTTP layer.\<close>

lemma connect_uses_connect_port:
  "aws_websocket_client_connect options m hc = Inr w \<Longrightarrow>
   \<exists>u. uri options = Some u \<and>
       events w = [Http_Client_Connect (uri_host_name u)
                     (connect_port u (tls_options options)) (tls_options options)]"
  by (auto simp: aws_websocket_client_connect_def connect_create_def Let_def
        split: if_splits option.splits prod.splits list.splits)

subsection \<open>Basic facts about the state\<close>

lemma connect_example:
  "aws_websocket_client_connect accepted_options empty_mem 0 = Inr example_world"
  by (simp add: aws_websocket_client_connect_def example_options_def empty_mem_def
        connect_create_def aws_mem_acquire_def connect_copy_request_def aws_byte_buf_init_def
        request_storage_size_def size_add_def example_uri_def
        aws_byte_buf_write_from_whole_cursor_def mem_write_def block_of_def
        aws_array_list_init_dynamic_def connect_port_def s_scheme_ports_def
        aws_byte_cursor_eq_ignore_case_def to_lower_def accepted_options_def example_world_def)

lemma emit_simps [simp]:
  "events (emit e w) = events w @ [e]"
  "boot (emit e w) = boot w"
  "destroyed (emit e w) = destroyed w"
  "memory (emit e w) = memory w"
  "last_error (emit e w) = last_error w"
  "boot_block (emit e w) = boot_block w"
  by (simp_all add: emit_def)

lemma raise_simps [simp]:
  "events (aws_raise_error e w) = events w"
  "boot (aws_raise_error e w) = boot w"
  "destroyed (aws_raise_error e w) = destroyed w"
  "memory (aws_raise_error e w) = memory w"
  "last_error (aws_raise_error e w) = e"
  by (simp_all add: aws_raise_error_def)

lemma destroy_simps [simp]:
  "events (s_ws_bootstrap_destroy w) = events w @ [Bootstrap_Destroyed]"
  "boot (s_ws_bootstrap_destroy w) = boot w"
  "destroyed (s_ws_bootstrap_destroy w)"
  "last_error (s_ws_bootstrap_destroy w) = last_error w"
  by (simp_all add: s_ws_bootstrap_destroy_def Let_def)

lemma cancel_simps [simp]:
  "events (s_ws_bootstrap_cancel_setup_due_to_err c e w) =
     events w @ (if setup_error_code (boot w) = 0 then [Connection_Close c] else [])"
  "boot (s_ws_bootstrap_cancel_setup_due_to_err c e w) =
     (boot w)\<lparr>setup_error_code :=
                (if setup_error_code (boot w) = 0 then e else setup_error_code (boot w))\<rparr>"
  "destroyed (s_ws_bootstrap_cancel_setup_due_to_err c e w) = destroyed w"
  "memory (s_ws_bootstrap_cancel_setup_due_to_err c e w) = memory w"
  "last_error (s_ws_bootstrap_cancel_setup_due_to_err c e w) = last_error w"
  by (simp_all add: s_ws_bootstrap_cancel_setup_due_to_err_def)

lemma error_codes_nonzero [simp]:
  "AWS_ERROR_UNKNOWN \<noteq> 0" "AWS_ERROR_OOM \<noteq> 0"
  "AWS_ERROR_HTTP_WEBSOCKET_UPGRADE_FAILURE \<noteq> 0" "AWS_ERROR_INVALID_ARGUMENT \<noteq> 0"
  by (simp_all add: AWS_ERROR_UNKNOWN_def AWS_ERROR_OOM_def
        AWS_ERROR_HTTP_WEBSOCKET_UPGRADE_FAILURE_def AWS_ERROR_INVALID_ARGUMENT_def)

subsection \<open>The shutdown of the HTTP connection\<close>

lemma events_shutdown:
  "events (s_ws_bootstrap_on_http_shutdown c error_code w) =
     events w @
     (if websocket_setup_callback (boot w)
      then [Setup_Callback None
              (if error_code \<noteq> 0 then error_code
               else if setup_error_code (boot w) \<noteq> 0 then setup_error_code (boot w)
               else AWS_ERROR_UNKNOWN)
              (response_status (boot w)) (al_items (response_headers (boot w)))
              (user_data (boot w))]
      else if websocket_shutdown_callback (boot w)
      then [Shutdown_Callback (websocket (boot w)) error_code (user_data (boot w))]
      else []) @
     [Connection_Release c, Bootstrap_Destroyed]"
  by (simp add: s_ws_bootstrap_on_http_shutdown_def Let_def)

lemma destroyed_shutdown [simp]: "destroyed (s_ws_bootstrap_on_http_shutdown c error_code w)"
  by (simp add: s_ws_bootstrap_on_http_shutdown_def Let_def)

text \<open>
  C8. When the connection shuts down while the setup callback is still pending, the
  setup callback is called with no websocket, with the response status and the header
  records captured so far, and with an error code that is the shutdown's when that is
  non-zero, else the sticky error of the cancellation when that is non-zero, else
  \<open>AWS_ERROR_UNKNOWN\<close>; the reported error code is never zero.
\<close>

theorem shutdown_reports_setup_failure:
  assumes "websocket_setup_callback (boot w)"
  shows "new_events w (s_ws_bootstrap_on_http_shutdown c error_code w) =
           [Setup_Callback None
              (if error_code \<noteq> 0 then error_code
               else if setup_error_code (boot w) \<noteq> 0 then setup_error_code (boot w)
               else AWS_ERROR_UNKNOWN)
              (response_status (boot w)) (al_items (response_headers (boot w)))
              (user_data (boot w)),
            Connection_Release c, Bootstrap_Destroyed] \<and>
         (if error_code \<noteq> 0 then error_code
          else if setup_error_code (boot w) \<noteq> 0 then setup_error_code (boot w)
          else AWS_ERROR_UNKNOWN) \<noteq> 0"
  using assms by (simp add: new_events_def events_shutdown)

theorem shutdown_reports_setup_failure_witness:
  "websocket_setup_callback (boot example_world) \<and>
   new_events example_world (s_ws_bootstrap_on_http_shutdown 1 0 example_world) =
     [Setup_Callback None AWS_ERROR_UNKNOWN AWS_HTTP_STATUS_UNKNOWN [] 7,
      Connection_Release 1, Bootstrap_Destroyed]"
  using shutdown_reports_setup_failure [of example_world 1 0]
  by (simp add: example_world_def)

text \<open>
  C10. Every call of the shutdown handler releases the HTTP connection once and
  destroys the bootstrap once, whichever user callback it calls. When the setup
  callback has already been called and no shutdown callback is configured, it calls no
  user callback, and still releases the connection and destroys the bootstrap.
\<close>

theorem shutdown_releases_and_destroys:
  "count_list (new_events w (s_ws_bootstrap_on_http_shutdown c error_code w))
     (Connection_Release c) = 1 \<and>
   count_list (new_events w (s_ws_bootstrap_on_http_shutdown c error_code w))
     Bootstrap_Destroyed = 1 \<and>
   destroyed (s_ws_bootstrap_on_http_shutdown c error_code w) \<and>
   (\<not> websocket_setup_callback (boot w) \<and> \<not> websocket_shutdown_callback (boot w) \<longrightarrow>
      new_events w (s_ws_bootstrap_on_http_shutdown c error_code w) =
        [Connection_Release c, Bootstrap_Destroyed])"
  by (simp add: new_events_def events_shutdown)

theorem shutdown_releases_and_destroys_witness:
  "new_events (example_world\<lparr>boot := (boot example_world)
        \<lparr>websocket_setup_callback := False, websocket_shutdown_callback := False,
         websocket := Some 3\<rparr>\<rparr>)
     (s_ws_bootstrap_on_http_shutdown 1 0
        (example_world\<lparr>boot := (boot example_world)
           \<lparr>websocket_setup_callback := False, websocket_shutdown_callback := False,
            websocket := Some 3\<rparr>\<rparr>)) =
     [Connection_Release 1, Bootstrap_Destroyed]"
  using shutdown_releases_and_destroys
          [of "example_world\<lparr>boot := (boot example_world)
                 \<lparr>websocket_setup_callback := False, websocket_shutdown_callback := False,
                  websocket := Some 3\<rparr>\<rparr>" 1 0]
  by simp

lemma connect_created:
  assumes "aws_websocket_client_connect options m hc = Inr w"
  shows "websocket_setup_callback (boot w)" "\<not> destroyed w" "setup_error_code (boot w) = 0"
    "websocket_shutdown_callback (boot w) = on_connection_shutdown options"
    "user_data (boot w) = opt_user_data options"
    "al_items (response_headers (boot w)) = []"
    "response_status (boot w) = AWS_HTTP_STATUS_UNKNOWN"
    "websocket (boot w) = None"
    "\<exists>h p t. events w = [Http_Client_Connect h p t]"
  using assms
  by (auto simp: aws_websocket_client_connect_def connect_create_def Let_def
        aws_array_list_init_dynamic_def
      split: if_splits option.splits prod.splits list.splits)

subsection \<open>A connection that is never established\<close>

text \<open>
  C7. When the HTTP layer reports that the connection could not be established
  (non-zero error code, no connection) to a bootstrap that
  \<open>aws_websocket_client_connect\<close> created, the handler calls the setup callback at once,
  with no websocket, that error code, status unknown and no headers, and destroys the
  bootstrap. The shutdown callback is not called, and cannot be called later: the
  bootstrap no longer exists, so no callback can be delivered to it.
\<close>

theorem failed_http_setup_reports_immediately:
  assumes "aws_websocket_client_connect options m hc = Inr w" and "error_code \<noteq> 0"
  shows "\<exists>w'. s_ws_bootstrap_on_http_setup None error_code new_request w = Inr w' \<and>
           new_events w w' =
             [Setup_Callback None error_code AWS_HTTP_STATUS_UNKNOWN [] (opt_user_data options),
              Bootstrap_Destroyed] \<and>
           destroyed w' \<and> (\<forall>cb. deliver cb w' = Inl Use_After_Free)"
  using assms connect_created(1,5) [OF assms(1)]
  by (simp add: s_ws_bootstrap_on_http_setup_def new_events_def deliver_def)

theorem failed_http_setup_reports_immediately_witness:
  "aws_websocket_client_connect accepted_options empty_mem 0 = Inr example_world \<and>
   (\<exists>w'. s_ws_bootstrap_on_http_setup None 1051 (Inr 0) example_world = Inr w' \<and>
      new_events example_world w' =
        [Setup_Callback None 1051 AWS_HTTP_STATUS_UNKNOWN [] 7, Bootstrap_Destroyed] \<and>
      destroyed w' \<and> (\<forall>cb. deliver cb w' = Inl Use_After_Free))"
proof -
  have "opt_user_data accepted_options = 7"
    by (simp add: accepted_options_def example_options_def)
  with failed_http_setup_reports_immediately [OF connect_example, of 1051 "Inr 0"]
  show ?thesis by (simp add: connect_example)
qed

subsection \<open>The cancellation\<close>

lemma cancel_calls_sticky:
  "setup_error_code (boot w) \<noteq> 0 \<Longrightarrow> cancel_calls c es w = w"
  by (induction es) (simp_all add: cancel_calls_def s_ws_bootstrap_cancel_setup_due_to_err_def)

lemma cancel_first:
  "setup_error_code (boot w) = 0 \<Longrightarrow> e \<noteq> 0 \<Longrightarrow>
   cancel_calls c (e # es) w =
     emit (Connection_Close c) (w\<lparr>boot := (boot w)\<lparr>setup_error_code := e\<rparr>\<rparr>)"
proof -
  assume a: "setup_error_code (boot w) = 0" "e \<noteq> 0"
  have "cancel_calls c (e # es) w = cancel_calls c es (s_ws_bootstrap_cancel_setup_due_to_err c e w)"
    by (simp add: cancel_calls_def)
  also have "\<dots> = s_ws_bootstrap_cancel_setup_due_to_err c e w"
    using a by (intro cancel_calls_sticky) simp
  finally show ?thesis using a by (simp add: s_ws_bootstrap_cancel_setup_due_to_err_def)
qed

subsection \<open>A response that refuses the upgrade\<close>

text \<open>
  C3. When the handshake completes without error and the status of the response is
  not 101, the completion handler raises \<open>AWS_ERROR_HTTP_WEBSOCKET_UPGRADE_FAILURE\<close> and
  cancels the setup: the sticky error is set (to the upgrade failure, unless an earlier
  error is already recorded), the close of the connection has been requested, and the
  handler calls no user callback. The setup callback stays pending and is called by
  the shutdown handler, with no websocket, a non-zero error code (the upgrade failure
  when that was the first error and the shutdown carries none) and the status received.
  The third hypothesis is the invariant of the cancellation, which holds in every state
  that the callbacks reach from a created bootstrap (\<open>reachable_close_requested\<close>
  below).
\<close>

theorem non_101_status_is_upgrade_failure:
  assumes "incoming_response_status stream \<noteq> AWS_HTTP_STATUS_101_SWITCHING_PROTOCOLS"
      and "websocket_setup_callback (boot w)"
      and "close_requested w"
  shows "\<exists>w'. s_ws_bootstrap_on_handshake_complete stream 0 handler_new w = Inr w' \<and>
           last_error w' = AWS_ERROR_HTTP_WEBSOCKET_UPGRADE_FAILURE \<and>
           setup_error_code (boot w') =
             (if setup_error_code (boot w) = 0 then AWS_ERROR_HTTP_WEBSOCKET_UPGRADE_FAILURE
              else setup_error_code (boot w)) \<and>
           (\<exists>c. Connection_Close c \<in> set (events w')) \<and>
           new_events w w' =
             (if setup_error_code (boot w) = 0
              then [Connection_Close (owning_connection stream)] else []) @ [Stream_Release] \<and>
           websocket_setup_callback (boot w') \<and>
           (\<forall>c e. \<exists>e'. e' \<noteq> 0 \<and> (e = 0 \<and> setup_error_code (boot w) = 0 \<longrightarrow>
                                 e' = AWS_ERROR_HTTP_WEBSOCKET_UPGRADE_FAILURE) \<and>
              new_events w' (s_ws_bootstrap_on_http_shutdown c e w') =
                [Setup_Callback None e' (incoming_response_status stream)
                   (al_items (response_headers (boot w))) (user_data (boot w)),
                 Connection_Release c, Bootstrap_Destroyed])"
  using assms
  by (auto simp: s_ws_bootstrap_on_handshake_complete_def handshake_complete_error_def
        Let_def new_events_def events_shutdown close_requested_def)


theorem non_101_status_is_upgrade_failure_witness:
  "incoming_response_status refusing_stream \<noteq> AWS_HTTP_STATUS_101_SWITCHING_PROTOCOLS \<and>
   websocket_setup_callback (boot example_world) \<and>
   (\<exists>w'. s_ws_bootstrap_on_handshake_complete refusing_stream 0 (Inr 3) example_world = Inr w' \<and>
      new_events example_world w' = [Connection_Close 1, Stream_Release] \<and>
      setup_error_code (boot w') = AWS_ERROR_HTTP_WEBSOCKET_UPGRADE_FAILURE \<and>
      new_events w' (s_ws_bootstrap_on_http_shutdown 1 0 w') =
        [Setup_Callback None AWS_ERROR_HTTP_WEBSOCKET_UPGRADE_FAILURE 200 [] 7,
         Connection_Release 1, Bootstrap_Destroyed])"
proof -
  have h1: "incoming_response_status refusing_stream \<noteq> AWS_HTTP_STATUS_101_SWITCHING_PROTOCOLS"
    by (simp add: refusing_stream_def AWS_HTTP_STATUS_101_SWITCHING_PROTOCOLS_def)
  have h2: "websocket_setup_callback (boot example_world)"
    and h3: "setup_error_code (boot example_world) = 0"
    and h4: "al_items (response_headers (boot example_world)) = []"
            "user_data (boot example_world) = 7"
    by (simp_all add: example_world_def)
  have h5: "owning_connection refusing_stream = 1" "incoming_response_status refusing_stream = 200"
    by (simp_all add: refusing_stream_def)
  from h3 have h6: "close_requested example_world"
    by (simp add: close_requested_def)
  from non_101_status_is_upgrade_failure [OF h1 h2 h6, of "Inr 3"]
  obtain w' where w':
    "s_ws_bootstrap_on_handshake_complete refusing_stream 0 (Inr 3) example_world = Inr w'"
    "setup_error_code (boot w') =
       (if setup_error_code (boot example_world) = 0 then AWS_ERROR_HTTP_WEBSOCKET_UPGRADE_FAILURE
        else setup_error_code (boot example_world))"
    "new_events example_world w' =
       (if setup_error_code (boot example_world) = 0
        then [Connection_Close (owning_connection refusing_stream)] else []) @ [Stream_Release]"
    "\<forall>c e. \<exists>e'. e' \<noteq> 0 \<and>
        (e = 0 \<and> setup_error_code (boot example_world) = 0 \<longrightarrow>
           e' = AWS_ERROR_HTTP_WEBSOCKET_UPGRADE_FAILURE) \<and>
        new_events w' (s_ws_bootstrap_on_http_shutdown c e w') =
          [Setup_Callback None e' (incoming_response_status refusing_stream)
             (al_items (response_headers (boot example_world))) (user_data (boot example_world)),
           Connection_Release c, Bootstrap_Destroyed]"
    by blast
  from w'(4) h3
  obtain e' where "e' = AWS_ERROR_HTTP_WEBSOCKET_UPGRADE_FAILURE"
    and "new_events w' (s_ws_bootstrap_on_http_shutdown 1 0 w') =
          [Setup_Callback None e' (incoming_response_status refusing_stream)
             (al_items (response_headers (boot example_world))) (user_data (boot example_world)),
           Connection_Release 1, Bootstrap_Destroyed]"
    by blast
  then have "new_events w' (s_ws_bootstrap_on_http_shutdown 1 0 w') =
          [Setup_Callback None AWS_ERROR_HTTP_WEBSOCKET_UPGRADE_FAILURE 200 [] 7,
           Connection_Release 1, Bootstrap_Destroyed]"
    by (simp add: h4 h5)
  with w'(1,2,3) h1 h2 h3 show ?thesis by (simp add: h5)
qed

subsection \<open>The request storage\<close>

lemma headers_length_simps [simp]:
  "headers_length [] = 0"
  "headers_length ((n, v) # hs) = length n + length v + headers_length hs"
  by (simp_all add: headers_length_def)

lemma fold_size_add:
  "acc + headers_length hs < 2 ^ 64 \<Longrightarrow>
   fold (\<lambda>(n, v) sz. size_add (size_add sz (length n)) (length v)) hs acc =
     acc + headers_length hs"
proof (induction hs arbitrary: acc)
  case Nil
  then show ?case by simp
next
  case (Cons h hs)
  obtain n v where h: "h = (n, v)" by (cases h)
  from Cons.prems h have b: "acc + length n + length v + headers_length hs < 2 ^ 64"
    by (simp add: add.assoc)
  then have s: "size_add (size_add acc (length n)) (length v) = acc + length n + length v"
    by (simp add: size_add_def)
  from b have "(acc + length n + length v) + headers_length hs < 2 ^ 64" by simp
  from Cons.IH [OF this] s h show ?case by (simp add: add.assoc)
qed

lemma request_storage_size_exact:
  "length path + headers_length hs < 2 ^ 64 \<Longrightarrow>
   request_storage_size path hs = length path + headers_length hs"
  by (simp add: request_storage_size_def fold_size_add)

lemma copy_request_headers_fits:
  "copy_request_headers hs (ok, buf, m, dst) = (ok', buf', m', dst') \<Longrightarrow>
   buf_capacity buf' = buf_capacity buf \<and> buf_buffer buf' = buf_buffer buf \<and>
   length dst' = length dst + length hs \<and>
   (ok \<and> buf_len buf + headers_length hs \<le> buf_capacity buf \<longrightarrow>
      ok' \<and> buf_len buf' = buf_len buf + headers_length hs)"
proof (induction hs arbitrary: ok buf m dst)
  case Nil
  then show ?case by simp
next
  case (Cons h hs)
  obtain n v where h: "h = (n, v)" by (cases h)
  obtain ok1 buf1 m1 where w1: "aws_byte_buf_write_from_whole_cursor buf n m = (ok1, buf1, m1)"
    by (cases "aws_byte_buf_write_from_whole_cursor buf n m") auto
  obtain ok2 buf2 m2 where w2: "aws_byte_buf_write_from_whole_cursor buf1 v m1 = (ok2, buf2, m2)"
    by (cases "aws_byte_buf_write_from_whole_cursor buf1 v m1") auto
  from Cons.prems h w1 w2
  have rec: "copy_request_headers hs
               (ok \<and> ok1 \<and> ok2, buf2, m2,
                dst @ [\<lparr>hdr_name = \<lparr>cur_ptr = (buf_buffer buf, buf_len buf), cur_len = length n\<rparr>,
                        hdr_value = \<lparr>cur_ptr = (buf_buffer buf1, buf_len buf1), cur_len = length v\<rparr>\<rparr>])
             = (ok', buf', m', dst')"
    by simp
  note ih = Cons.IH [OF rec]
  from w1 have b1: "buf_capacity buf1 = buf_capacity buf" "buf_buffer buf1 = buf_buffer buf"
    "buf_len buf + length n \<le> buf_capacity buf \<longrightarrow> ok1 \<and> buf_len buf1 = buf_len buf + length n"
    by (auto simp: aws_byte_buf_write_from_whole_cursor_def split: if_splits)
  from w2 have b2: "buf_capacity buf2 = buf_capacity buf1" "buf_buffer buf2 = buf_buffer buf1"
    "buf_len buf1 + length v \<le> buf_capacity buf1 \<longrightarrow> ok2 \<and> buf_len buf2 = buf_len buf1 + length v"
    by (auto simp: aws_byte_buf_write_from_whole_cursor_def split: if_splits)
  from ih b1 b2 h show ?case by auto
qed

lemma copy_request_fits:
  assumes "connect_copy_request path hs m = Some (write_success, rs, pc, dst, hb, m')"
      and "length path + headers_length hs < 2 ^ 64"
  shows "buf_capacity rs = length path + headers_length hs \<and> write_success \<and>
         buf_len rs = buf_capacity rs \<and> length dst = length hs"
proof -
  from assms(1) obtain b m1 where
    acq: "aws_mem_acquire m = (Some b, m1)"
    by (auto simp: connect_copy_request_def aws_byte_buf_init_def split: prod.splits option.splits)
  let ?rs0 = "\<lparr>buf_buffer = b, buf_len = 0, buf_capacity = request_storage_size path hs\<rparr>"
  obtain ok0 rs1 m2 where w0: "aws_byte_buf_write_from_whole_cursor ?rs0 path m1 = (ok0, rs1, m2)"
    by (cases "aws_byte_buf_write_from_whole_cursor ?rs0 path m1") auto
  from assms(1) acq w0 obtain m3 where
    cp: "copy_request_headers hs (ok0, rs1, m3, []) = (write_success, rs, m', dst)"
    by (auto simp: connect_copy_request_def aws_byte_buf_init_def split: prod.splits option.splits)
  have cap: "request_storage_size path hs = length path + headers_length hs"
    using assms(2) by (rule request_storage_size_exact)
  from w0 cap have r1: "ok0" "buf_len rs1 = length path"
    "buf_capacity rs1 = length path + headers_length hs"
    by (auto simp: aws_byte_buf_write_from_whole_cursor_def split: if_splits)
  from copy_request_headers_fits [OF cp] r1 show ?thesis by simp
qed

lemma flat_simps [simp]:
  "flat [] = []" "flat ((n, v) # hs) = n @ v @ flat hs"
  by (simp_all add: flat_def)

lemma length_flat [simp]: "length (flat hs) = headers_length hs"
  by (induction hs) auto

lemma acquire_fresh:
  "aws_mem_acquire m = (Some b, m') \<Longrightarrow>
   b = length (heap m) \<and> heap m' = heap m @ [Some []]"
  by (auto simp: aws_mem_acquire_def split: list.splits bool.splits)

lemma block_of_acquire:
  "aws_mem_acquire m = (Some b, m') \<Longrightarrow>
   block_of m' b = Some [] \<and> (\<forall>b'. b' < length (heap m) \<longrightarrow> block_of m' b' = block_of m b')"
  by (auto simp: block_of_def nth_append dest!: acquire_fresh)

lemma block_of_live: "block_of m b = Some bs \<Longrightarrow> b < length (heap m)"
  by (auto simp: block_of_def split: if_splits)

lemma write_fits:
  assumes "block_of m (buf_buffer buf) = Some bs" and "length bs = buf_len buf"
      and "buf_len buf + length src \<le> buf_capacity buf"
  shows "\<exists>m'. aws_byte_buf_write_from_whole_cursor buf src m =
                 (True, buf\<lparr>buf_len := buf_len buf + length src\<rparr>, m') \<and>
               block_of m' (buf_buffer buf) = Some (bs @ src)"
  using assms block_of_live [OF assms(1)]
  by (auto simp: aws_byte_buf_write_from_whole_cursor_def mem_write_def block_of_def)

lemma copy_request_headers_layout:
  assumes "block_of m (buf_buffer buf) = Some bs" and "length bs = buf_len buf"
      and "buf_len buf + headers_length hs \<le> buf_capacity buf"
  shows "\<exists>m'. copy_request_headers hs (True, buf, m, dst) =
                 (True, buf\<lparr>buf_len := buf_len buf + headers_length hs\<rparr>, m',
                  dst @ records_at (buf_buffer buf) (buf_len buf) hs) \<and>
               block_of m' (buf_buffer buf) = Some (bs @ flat hs)"
  using assms
proof (induction hs arbitrary: buf m bs dst)
  case Nil
  then show ?case by simp
next
  case (Cons h hs)
  obtain n v where h: "h = (n, v)" by (cases h)
  from Cons.prems h have fit1: "buf_len buf + length n \<le> buf_capacity buf" by simp
  from write_fits [OF Cons.prems(1,2) fit1] obtain m1 where
    w1: "aws_byte_buf_write_from_whole_cursor buf n m =
           (True, buf\<lparr>buf_len := buf_len buf + length n\<rparr>, m1)"
    and b1: "block_of m1 (buf_buffer buf) = Some (bs @ n)"
    by blast
  let ?buf1 = "buf\<lparr>buf_len := buf_len buf + length n\<rparr>"
  from Cons.prems h have fit2: "buf_len ?buf1 + length v \<le> buf_capacity ?buf1" by simp
  from b1 have b1': "block_of m1 (buf_buffer ?buf1) = Some (bs @ n)" by simp
  have l1: "length (bs @ n) = buf_len ?buf1" using Cons.prems(2) by simp
  from write_fits [OF b1' l1 fit2] obtain m2 where
    w2: "aws_byte_buf_write_from_whole_cursor ?buf1 v m1 =
           (True, ?buf1\<lparr>buf_len := buf_len ?buf1 + length v\<rparr>, m2)"
    and b2: "block_of m2 (buf_buffer buf) = Some ((bs @ n) @ v)"
    by auto
  let ?buf2 = "?buf1\<lparr>buf_len := buf_len ?buf1 + length v\<rparr>"
  from b2 have b2': "block_of m2 (buf_buffer ?buf2) = Some ((bs @ n) @ v)" by simp
  have l2: "length ((bs @ n) @ v) = buf_len ?buf2" using Cons.prems(2) by simp
  from Cons.prems h have fit3: "buf_len ?buf2 + headers_length hs \<le> buf_capacity ?buf2" by simp
  from Cons.IH [OF b2' l2 fit3,
      of "dst @ [\<lparr>hdr_name = \<lparr>cur_ptr = (buf_buffer buf, buf_len buf), cur_len = length n\<rparr>,
                  hdr_value = \<lparr>cur_ptr = (buf_buffer ?buf1, buf_len ?buf1), cur_len = length v\<rparr>\<rparr>]"]
  obtain m' where
    r: "copy_request_headers hs
          (True, ?buf2, m2,
           dst @ [\<lparr>hdr_name = \<lparr>cur_ptr = (buf_buffer buf, buf_len buf), cur_len = length n\<rparr>,
                   hdr_value = \<lparr>cur_ptr = (buf_buffer ?buf1, buf_len ?buf1), cur_len = length v\<rparr>\<rparr>]) =
          (True, ?buf2\<lparr>buf_len := buf_len ?buf2 + headers_length hs\<rparr>, m',
           (dst @ [\<lparr>hdr_name = \<lparr>cur_ptr = (buf_buffer buf, buf_len buf), cur_len = length n\<rparr>,
                   hdr_value = \<lparr>cur_ptr = (buf_buffer ?buf1, buf_len ?buf1), cur_len = length v\<rparr>\<rparr>])
           @ records_at (buf_buffer ?buf2) (buf_len ?buf2) hs)"
    and b': "block_of m' (buf_buffer ?buf2) = Some (((bs @ n) @ v) @ flat hs)"
    by blast
  from r w1 w2 b' h show ?case by (simp add: add.assoc)
qed

lemma resolve_records_at:
  "block_of m b = Some (pre @ flat hs @ post) \<Longrightarrow> length pre = off \<Longrightarrow>
   map (resolve_header m) (records_at b off hs) = map Some hs"
proof (induction hs arbitrary: pre off)
  case Nil
  then show ?case by simp
next
  case (Cons h hs)
  obtain n v where h: "h = (n, v)" by (cases h)
  from Cons.prems h have blk: "block_of m b = Some ((pre @ n @ v) @ flat hs @ post)" by simp
  have "length (pre @ n @ v) = off + length n + length v" using Cons.prems(2) by simp
  from Cons.IH [OF blk this]
  have rest: "map (resolve_header m) (records_at b (off + length n + length v) hs) = map Some hs" .
  from Cons.prems h have
    "resolve m \<lparr>cur_ptr = (b, off), cur_len = length n\<rparr> = Some n"
    "resolve m \<lparr>cur_ptr = (b, off + length n), cur_len = length v\<rparr> = Some v"
    by (simp_all add: resolve_def)
  then have "resolve_header m
            \<lparr>hdr_name = \<lparr>cur_ptr = (b, off), cur_len = length n\<rparr>,
             hdr_value = \<lparr>cur_ptr = (b, off + length n), cur_len = length v\<rparr>\<rparr> = Some (n, v)"
    by (simp add: resolve_header_def)
  with rest h show ?case by simp
qed

lemma request_deep_copy:
  assumes "connect_copy_request path hs m = Some (write_success, rs, pc, dst, hb, m')"
      and "length path + headers_length hs < 2 ^ 64"
  shows "resolve m' pc = Some path \<and> map (resolve_header m') dst = map Some hs"
proof -
  from assms(1) obtain b m1 where
    acq: "aws_mem_acquire m = (Some b, m1)"
    by (auto simp: connect_copy_request_def aws_byte_buf_init_def split: prod.splits option.splits)
  let ?rs0 = "\<lparr>buf_buffer = b, buf_len = 0, buf_capacity = request_storage_size path hs\<rparr>"
  have cap: "request_storage_size path hs = length path + headers_length hs"
    using assms(2) by (rule request_storage_size_exact)
  from block_of_acquire [OF acq] have b0: "block_of m1 (buf_buffer ?rs0) = Some []" by simp
  from write_fits [OF b0, of path] cap obtain m2 where
    w0: "aws_byte_buf_write_from_whole_cursor ?rs0 path m1 =
           (True, ?rs0\<lparr>buf_len := length path\<rparr>, m2)"
    and b1: "block_of m2 b = Some path"
    by auto
  let ?rs1 = "?rs0\<lparr>buf_len := length path\<rparr>"
  from assms(1) acq w0 obtain m3 where
    acq2: "aws_mem_acquire m2 = (Some hb, m3)"
    and cp: "copy_request_headers hs (True, ?rs1, m3, []) = (write_success, rs, m', dst)"
    and pc: "pc = \<lparr>cur_ptr = (b, 0), cur_len = length path\<rparr>"
    by (auto simp: connect_copy_request_def aws_byte_buf_init_def split: prod.splits option.splits)
  from block_of_acquire [OF acq2] block_of_live [OF b1] b1
  have b2: "block_of m3 (buf_buffer ?rs1) = Some path" by simp
  have "buf_len ?rs1 + headers_length hs \<le> buf_capacity ?rs1" using cap by simp
  from copy_request_headers_layout [OF b2 _ this, of "[]"] cp
  have dst: "dst = records_at b (length path) hs"
    and blk: "block_of m' b = Some (path @ flat hs)"
    by auto
  from blk have "block_of m' b = Some (path @ flat hs @ [])" by simp
  from resolve_records_at [OF this refl] dst
  have "map (resolve_header m') dst = map Some hs" by simp
  moreover from blk pc have "resolve m' pc = Some path" by (simp add: resolve_def)
  ultimately show ?thesis by simp
qed

text \<open>
  C9. The request storage is allocated with a capacity equal to the length of the
  path plus the lengths of all header names and values, and the writes of the path and
  of each header's name and value, in order, all succeed and fill it exactly, so
  \<open>write_success\<close> holds at the assertion; the path cursor and the header records then
  denote the path and the headers given. The sum is computed in \<open>size_t\<close>; the statement
  is for lengths whose sum fits in a \<open>size_t\<close>.
\<close>

theorem request_storage_sized_exactly:
  assumes "connect_copy_request path hs m = Some (write_success, rs, pc, dst, hb, m')"
      and "length path + headers_length hs < 2 ^ 64"
  shows "buf_capacity rs = length path + headers_length hs \<and> write_success \<and>
         buf_len rs = buf_capacity rs \<and>
         resolve m' pc = Some path \<and> map (resolve_header m') dst = map Some hs"
  using copy_request_fits [OF assms] request_deep_copy [OF assms] by simp

theorem request_storage_sized_exactly_witness:
  "(\<exists>m'. connect_copy_request ''/chat'' [(''Upgrade'', ''websocket'')] empty_mem =
      Some (True, \<lparr>buf_buffer = 0, buf_len = 21, buf_capacity = 21\<rparr>,
            \<lparr>cur_ptr = (0, 0), cur_len = 5\<rparr>,
            [\<lparr>hdr_name = \<lparr>cur_ptr = (0, 5), cur_len = 7\<rparr>,
              hdr_value = \<lparr>cur_ptr = (0, 12), cur_len = 9\<rparr>\<rparr>], 1, m')) \<and>
   length ''/chat'' + headers_length [(''Upgrade'', ''websocket'')] = 21"
proof -
  have e: "connect_copy_request ''/chat'' [(''Upgrade'', ''websocket'')] empty_mem =
      Some (True, \<lparr>buf_buffer = 0, buf_len = 21, buf_capacity = 21\<rparr>,
            \<lparr>cur_ptr = (0, 0), cur_len = 5\<rparr>,
            [\<lparr>hdr_name = \<lparr>cur_ptr = (0, 5), cur_len = 7\<rparr>,
              hdr_value = \<lparr>cur_ptr = (0, 12), cur_len = 9\<rparr>\<rparr>], 1,
            \<lparr>heap = [Some ''/chatUpgradewebsocket'', Some []], alloc_plan = []\<rparr>)"
    by (simp add: connect_copy_request_def empty_mem_def aws_byte_buf_init_def
          aws_mem_acquire_def request_storage_size_def size_add_def
          aws_byte_buf_write_from_whole_cursor_def mem_write_def block_of_def)
  have "length ''/chat'' + headers_length [(''Upgrade'', ''websocket'')] < 2 ^ 64" by simp
  from request_storage_sized_exactly [OF e this] e show ?thesis by simp
qed

subsection \<open>The lifetime of a bootstrap\<close>

lemma user_calls_simps [simp]:
  "user_calls [] = []"
  "user_calls (es @ es') = user_calls es @ user_calls es'"
  "user_calls (x # es) = (if is_setup_callback x \<or> is_shutdown_callback x then x # user_calls es else user_calls es)"
  by (simp_all add: user_calls_def)

lemma connect_pending:
  "aws_websocket_client_connect options m hc = Inr w \<Longrightarrow> pending (on_connection_shutdown options) w"
  using connect_created [of options m hc w] by (auto simp: pending_def)

lemma loop_control:
  "response_headers_loop hs w = (err, w') \<Longrightarrow>
   events w' = events w \<and> destroyed w' = destroyed w \<and>
   websocket_setup_callback (boot w') = websocket_setup_callback (boot w) \<and>
   websocket_shutdown_callback (boot w') = websocket_shutdown_callback (boot w) \<and>
   websocket (boot w') = websocket (boot w) \<and> user_data (boot w') = user_data (boot w)"
proof (induction hs arbitrary: w)
  case Nil
  then show ?case by simp
next
  case (Cons h hs)
  obtain n v where h: "h = (n, v)" by (cases h)
  show ?case
    using Cons.prems Cons.IH unfolding h
    by (auto simp: Let_def split: prod.splits if_splits)
qed

lemma headers_pending:
  "pending sd w \<Longrightarrow> pending sd (s_ws_bootstrap_on_handshake_response_headers s hs w)"
  by (cases "response_headers_loop hs w")
     (auto simp: s_ws_bootstrap_on_handshake_response_headers_def pending_def
        dest!: loop_control split: bool.splits)

lemma complete_pending:
  "pending sd w \<Longrightarrow>
   \<exists>w'. s_ws_bootstrap_on_handshake_complete s e hn w = Inr w' \<and> (pending sd w' \<or> established sd w')"
  by (cases hn)
     (auto simp: s_ws_bootstrap_on_handshake_complete_def handshake_complete_error_def
        pending_def established_def Let_def)

lemma shutdown_finished:
  "pending sd w \<or> established sd w \<Longrightarrow> finished sd (s_ws_bootstrap_on_http_shutdown c e w)"
  by (auto simp: pending_def established_def finished_def events_shutdown)

lemma setup_pending:
  "pending sd w \<Longrightarrow>
   \<exists>w'. s_ws_bootstrap_on_http_setup (Some c) 0 nr w = Inr w' \<and> pending sd w'"
  by (cases nr) (auto simp: s_ws_bootstrap_on_http_setup_def pending_def Let_def)

lemma setup_failed_finished:
  "pending sd w \<Longrightarrow> e \<noteq> 0 \<Longrightarrow>
   \<exists>w'. s_ws_bootstrap_on_http_setup None e nr w = Inr w' \<and> finished sd w'"
  by (auto simp: s_ws_bootstrap_on_http_setup_def pending_def finished_def)

lemma run_only_shutdown:
  "only_shutdown cbs \<Longrightarrow> pending sd w \<or> established sd w \<Longrightarrow>
   \<exists>w'. run cbs w = Inr w' \<and> finished sd w'"
proof (induction cbs rule: only_shutdown.induct)
  case (1 c e)
  then have "\<not> destroyed w" by (auto simp: pending_def established_def)
  with 1 show ?case by (simp add: deliver_def shutdown_finished)
qed simp_all

lemma run_only_shutdown_pending:
  "only_shutdown cbs \<Longrightarrow> pending sd w \<Longrightarrow> \<exists>w'. run cbs w = Inr w' \<and> finished sd w'"
  using run_only_shutdown [of cbs sd w] by blast

lemma run_stream_then_shutdown:
  "stream_then_shutdown cbs \<Longrightarrow> pending sd w \<Longrightarrow>
   \<exists>w'. run cbs w = Inr w' \<and> finished sd w'"
proof (induction cbs arbitrary: w rule: stream_then_shutdown.induct)
  case (1 s hs cbs)
  then have nd: "\<not> destroyed w" by (simp add: pending_def)
  from 1 have "pending sd (s_ws_bootstrap_on_handshake_response_headers s hs w)"
    by (simp add: headers_pending)
  with 1 nd show ?case by (simp add: deliver_def)
next
  case (2 s e hn cbs)
  then have nd: "\<not> destroyed w" by (simp add: pending_def)
  from complete_pending [OF 2(2)] obtain w' where
    w': "s_ws_bootstrap_on_handshake_complete s e hn w = Inr w'" "pending sd w' \<or> established sd w'"
    by blast
  from 2(1) have "only_shutdown cbs" by simp
  from run_only_shutdown [OF this w'(2)] w'(1) nd show ?case by (simp add: deliver_def)
qed (simp_all del: run.simps add: run_only_shutdown_pending)

lemma run_contract:
  "http_contract cbs \<Longrightarrow> pending sd w \<Longrightarrow> \<exists>w'. run cbs w = Inr w' \<and> finished sd w'"
proof (induction cbs rule: http_contract.induct)
  case (1 e nr cbs)
  then have nd: "\<not> destroyed w" by (simp add: pending_def)
  from 1 setup_failed_finished [of sd w e nr] nd show ?case
    by (auto simp: deliver_def)
next
  case (2 c e err cbs)
  then have nd: "\<not> destroyed w" by (simp add: pending_def)
  from setup_pending [OF 2(2), of c "Inl err"] obtain w' where
    w': "s_ws_bootstrap_on_http_setup (Some c) 0 (Inl err) w = Inr w'" "pending sd w'" by blast
  from 2(1) have "only_shutdown cbs" "e = 0" by simp_all
  with run_only_shutdown [of cbs sd w'] w' nd show ?case by (simp add: deliver_def)
next
  case (3 c e s cbs)
  then have nd: "\<not> destroyed w" by (simp add: pending_def)
  from setup_pending [OF 3(2), of c "Inr s"] obtain w' where
    w': "s_ws_bootstrap_on_http_setup (Some c) 0 (Inr s) w = Inr w'" "pending sd w'" by blast
  from 3(1) have "stream_then_shutdown cbs" "e = 0" by simp_all
  with run_stream_then_shutdown [of cbs sd w'] w' nd show ?case by (simp add: deliver_def)
qed simp_all

text \<open>The invariant of the cancellation along every run.\<close>

lemma loop_setup_error:
  "response_headers_loop hs w = (err, w') \<Longrightarrow>
   setup_error_code (boot w') = setup_error_code (boot w)"
proof (induction hs arbitrary: w)
  case Nil
  then show ?case by simp
next
  case (Cons h hs)
  obtain n v where h: "h = (n, v)" by (cases h)
  show ?case
    using Cons.prems Cons.IH unfolding h
    by (auto simp: Let_def split: prod.splits if_splits)
qed

lemma cancel_close_requested:
  "close_requested w \<Longrightarrow> close_requested (s_ws_bootstrap_cancel_setup_due_to_err c e w)"
  by (auto simp: close_requested_def)

lemma headers_close_requested:
  "close_requested w \<Longrightarrow> close_requested (s_ws_bootstrap_on_handshake_response_headers s hs w)"
proof -
  assume a: "close_requested w"
  obtain err w' where l: "response_headers_loop hs w = (err, w')"
    by (cases "response_headers_loop hs w")
  from loop_control [OF l] loop_setup_error [OF l] a have "close_requested w'"
    by (simp add: close_requested_def)
  with l show ?thesis
    by (cases err) (simp_all add: s_ws_bootstrap_on_handshake_response_headers_def
                       cancel_close_requested)
qed

lemma deliver_close_requested:
  "close_requested w \<Longrightarrow> deliver cb w = Inr w' \<Longrightarrow> close_requested w'"
proof (cases cb)
  case (On_Http_Setup c e nr)
  assume "close_requested w" "deliver cb w = Inr w'"
  with On_Http_Setup show ?thesis
    by (auto simp: deliver_def s_ws_bootstrap_on_http_setup_def close_requested_def Let_def
          split: if_splits option.splits sum.splits)
next
  case (On_Response_Headers s hs)
  assume "close_requested w" "deliver cb w = Inr w'"
  with On_Response_Headers show ?thesis
    by (auto simp: deliver_def headers_close_requested split: if_splits)
next
  case (On_Handshake_Complete s e hn)
  assume "close_requested w" "deliver cb w = Inr w'"
  with On_Handshake_Complete show ?thesis
    by (auto simp: deliver_def s_ws_bootstrap_on_handshake_complete_def
          handshake_complete_error_def close_requested_def Let_def
          split: if_splits sum.splits)
next
  case (On_Http_Shutdown c e)
  assume "close_requested w" "deliver cb w = Inr w'"
  with On_Http_Shutdown show ?thesis
    by (auto simp: deliver_def close_requested_def events_shutdown
          s_ws_bootstrap_on_http_shutdown_def Let_def split: if_splits)
qed

lemma run_close_requested:
  "close_requested w \<Longrightarrow> run cbs w = Inr w' \<Longrightarrow> close_requested w'"
proof (induction cbs arbitrary: w)
  case Nil
  then show ?case by simp
next
  case (Cons cb cbs)
  then show ?case
    by (cases "deliver cb w") (auto dest: deliver_close_requested)
qed

lemma reachable_close_requested:
  "aws_websocket_client_connect options m hc = Inr w0 \<Longrightarrow> run cbs w0 = Inr w \<Longrightarrow>
   close_requested w"
  using connect_created(3) [of options m hc w0] run_close_requested [of w0 cbs w]
  by (simp add: close_requested_def)

lemma setup_success_is_setup [simp]:
  "is_setup_success x \<Longrightarrow> is_setup_callback x"
  by (cases x) simp_all

lemma finished_counts:
  assumes "finished sd w"
  shows "length (filter is_setup_callback (events w)) = 1"
    and "length (filter is_shutdown_callback (events w)) =
           (if (\<exists>x \<in> set (events w). is_setup_success x) \<and> sd then 1 else 0)"
    and "shutdown_after_success False (events w)"
proof -
  have f4: "shutdown_after_success ok es = shutdown_after_success ok (user_calls es)" for ok es
  proof (induction es arbitrary: ok)
    case Nil
    then show ?case by simp
  next
    case (Cons a es)
    have "\<not> is_setup_callback a \<Longrightarrow> \<not> is_setup_success a"
      by (cases a) simp_all
    with Cons show ?case by auto
  qed
  have f1: "filter is_setup_callback es = filter is_setup_callback (user_calls es)" for es
    by (induction es) auto
  have f2: "filter is_shutdown_callback es = filter is_shutdown_callback (user_calls es)" for es
    by (induction es) auto
  have f3: "(\<exists>x \<in> set es. is_setup_success x) = (\<exists>x \<in> set (user_calls es). is_setup_success x)" for es
    by (induction es) (auto elim: is_setup_success.elims)
  from assms show "length (filter is_setup_callback (events w)) = 1"
    by (subst f1) (auto simp: finished_def)
  from assms show "length (filter is_shutdown_callback (events w)) =
           (if (\<exists>x \<in> set (events w). is_setup_success x) \<and> sd then 1 else 0)"
    by (subst f2, subst f3) (auto simp: finished_def)
  from assms show "shutdown_after_success False (events w)"
    by (subst f4) (auto simp: finished_def)
qed

text \<open>
  C4. For a bootstrap created by \<open>aws_websocket_client_connect\<close> and every sequence
  of callbacks that the HTTP layer can deliver over its lifetime, every callback is
  handled without a fault, the bootstrap ends destroyed, the setup callback has been
  called exactly once, and the shutdown callback has been called once if the setup
  callback reported success (a websocket and error code zero) and a shutdown callback
  was configured, and not at all otherwise; a call of the shutdown callback comes after
  the successful call of the setup callback.
\<close>

theorem callbacks_exactly_once:
  assumes "aws_websocket_client_connect options m hc = Inr w0" and "http_contract cbs"
  shows "\<exists>w. run cbs w0 = Inr w \<and> destroyed w \<and>
           length (filter is_setup_callback (events w)) = 1 \<and>
           length (filter is_shutdown_callback (events w)) =
             (if (\<exists>x \<in> set (events w). is_setup_success x) \<and> on_connection_shutdown options
              then 1 else 0) \<and>
           shutdown_after_success False (events w)"
proof -
  from run_contract [OF assms(2) connect_pending [OF assms(1)]] obtain w where
    w: "run cbs w0 = Inr w" "finished (on_connection_shutdown options) w" by blast
  from w(2) have "destroyed w" by (simp add: finished_def)
  with w(1) finished_counts [OF w(2)] show ?thesis by blast
qed

lemma example_run_log:
  "\<exists>w. run example_run example_world = Inr w \<and>
     user_calls (events w) =
       [Setup_Callback (Some 3) 0 101
          [\<lparr>hdr_name = \<lparr>cur_ptr = (4, 0), cur_len = 7\<rparr>,
            hdr_value = \<lparr>cur_ptr = (4, 7), cur_len = 9\<rparr>\<rparr>] 7,
        Shutdown_Callback (Some 3) 0 7]"
  by (simp add: example_run_def example_world_def upgrading_stream_def deliver_def
        s_ws_bootstrap_on_http_setup_def s_ws_bootstrap_on_handshake_response_headers_def
        s_ws_bootstrap_on_handshake_complete_def events_shutdown
        s_ws_bootstrap_on_http_shutdown_def s_ws_bootstrap_destroy_def
        aws_byte_buf_append_dynamic_def aws_array_list_push_back_def Let_def
        AWS_HTTP_STATUS_101_SWITCHING_PROTOCOLS_def emit_def)

theorem callbacks_exactly_once_witness:
  "aws_websocket_client_connect accepted_options empty_mem 0 = Inr example_world \<and>
   http_contract example_run \<and>
   (\<exists>w. run example_run example_world = Inr w \<and> destroyed w \<and>
      user_calls (events w) =
        [Setup_Callback (Some 3) 0 101
           [\<lparr>hdr_name = \<lparr>cur_ptr = (4, 0), cur_len = 7\<rparr>,
             hdr_value = \<lparr>cur_ptr = (4, 7), cur_len = 9\<rparr>\<rparr>] 7,
         Shutdown_Callback (Some 3) 0 7] \<and>
      length (filter is_setup_callback (events w)) = 1 \<and>
      length (filter is_shutdown_callback (events w)) = 1)"
proof -
  have c: "http_contract example_run"
    by (simp add: example_run_def)
  from callbacks_exactly_once [OF connect_example c] obtain w where w:
    "run example_run example_world = Inr w" "destroyed w"
    "length (filter is_setup_callback (events w)) = 1"
    "length (filter is_shutdown_callback (events w)) =
       (if (\<exists>x \<in> set (events w). is_setup_success x) \<and> on_connection_shutdown accepted_options
        then 1 else 0)"
    by blast
  from example_run_log w(1) have u: "user_calls (events w) =
        [Setup_Callback (Some 3) 0 101
           [\<lparr>hdr_name = \<lparr>cur_ptr = (4, 0), cur_len = 7\<rparr>,
             hdr_value = \<lparr>cur_ptr = (4, 7), cur_len = 9\<rparr>\<rparr>] 7,
         Shutdown_Callback (Some 3) 0 7]"
    by auto
  have "Setup_Callback (Some 3) 0 101
           [\<lparr>hdr_name = \<lparr>cur_ptr = (4, 0), cur_len = 7\<rparr>,
             hdr_value = \<lparr>cur_ptr = (4, 7), cur_len = 9\<rparr>\<rparr>] 7 \<in> set (user_calls (events w))"
    by (simp add: u)
  then have "Setup_Callback (Some 3) 0 101
           [\<lparr>hdr_name = \<lparr>cur_ptr = (4, 0), cur_len = 7\<rparr>,
             hdr_value = \<lparr>cur_ptr = (4, 7), cur_len = 9\<rparr>\<rparr>] 7 \<in> set (events w)"
    by (simp add: user_calls_def)
  then have "\<exists>x \<in> set (events w). is_setup_success x"
    by (rule rev_bexI) simp
  moreover have "on_connection_shutdown accepted_options"
    by (simp add: accepted_options_def example_options_def)
  ultimately have "length (filter is_shutdown_callback (events w)) = 1"
    using w(4) by simp
  with w u c connect_example show ?thesis by blast
qed
subsection \<open>The response headers\<close>

lemma append_fits:
  assumes "block_of m (buf_buffer buf) = Some bs" and "length bs = buf_len buf"
      and "buf_len buf + length src \<le> buf_capacity buf"
  shows "\<exists>m'. aws_byte_buf_append_dynamic buf src m =
                 (True, buf\<lparr>buf_len := buf_len buf + length src\<rparr>, m') \<and>
               block_of m' (buf_buffer buf) = Some (bs @ src)"
  using assms block_of_live [OF assms(1)]
  by (auto simp: aws_byte_buf_append_dynamic_def mem_write_def block_of_def)

lemma records_at_append:
  "records_at b off (hs @ hs') = records_at b off hs @ records_at b (off + headers_length hs) hs'"
  by (induction hs arbitrary: off) (auto simp: add.assoc)

lemma headers_length_append [simp]:
  "headers_length (hs @ hs') = headers_length hs + headers_length hs'"
  by (simp add: headers_length_def)

lemma flat_append [simp]: "flat (hs @ hs') = flat hs @ flat hs'"
  by (simp add: flat_def)

lemma response_headers_loop_in_place:
  assumes "block_of (memory w) (buf_buffer (response_storage (boot w))) = Some bs"
      and "length bs = buf_len (response_storage (boot w))"
      and "buf_len (response_storage (boot w)) + headers_length hs
             \<le> buf_capacity (response_storage (boot w))"
      and "length (al_items (response_headers (boot w))) + length hs
             \<le> al_slots (response_headers (boot w))"
  shows "\<exists>w'. response_headers_loop hs w = (False, w') \<and>
           buf_buffer (response_storage (boot w')) = buf_buffer (response_storage (boot w)) \<and>
           buf_capacity (response_storage (boot w')) = buf_capacity (response_storage (boot w)) \<and>
           buf_len (response_storage (boot w')) =
             buf_len (response_storage (boot w)) + headers_length hs \<and>
           al_slots (response_headers (boot w')) = al_slots (response_headers (boot w)) \<and>
           al_items (response_headers (boot w')) =
             al_items (response_headers (boot w)) @
             records_at (buf_buffer (response_storage (boot w)))
               (buf_len (response_storage (boot w))) hs \<and>
           block_of (memory w') (buf_buffer (response_storage (boot w))) = Some (bs @ flat hs)"
  using assms
proof (induction hs arbitrary: w bs)
  case Nil
  then show ?case by simp
next
  case (Cons h hs)
  obtain n v where h: "h = (n, v)" by (cases h)
  let ?rs = "response_storage (boot w)"
  from Cons.prems h have fit1: "buf_len ?rs + length n \<le> buf_capacity ?rs" by simp
  from append_fits [OF Cons.prems(1,2) fit1] obtain m1 where
    a1: "aws_byte_buf_append_dynamic ?rs n (memory w) =
           (True, ?rs\<lparr>buf_len := buf_len ?rs + length n\<rparr>, m1)"
    and b1: "block_of m1 (buf_buffer ?rs) = Some (bs @ n)"
    by blast
  let ?rs1 = "?rs\<lparr>buf_len := buf_len ?rs + length n\<rparr>"
  from b1 have b1': "block_of m1 (buf_buffer ?rs1) = Some (bs @ n)" by simp
  have l1: "length (bs @ n) = buf_len ?rs1" using Cons.prems(2) by simp
  from Cons.prems h have fit2: "buf_len ?rs1 + length v \<le> buf_capacity ?rs1" by simp
  from append_fits [OF b1' l1 fit2] obtain m2 where
    a2: "aws_byte_buf_append_dynamic ?rs1 v m1 =
           (True, ?rs1\<lparr>buf_len := buf_len ?rs1 + length v\<rparr>, m2)"
    and b2: "block_of m2 (buf_buffer ?rs) = Some ((bs @ n) @ v)"
    by auto
  let ?rs2 = "?rs1\<lparr>buf_len := buf_len ?rs1 + length v\<rparr>"
  let ?rec = "\<lparr>hdr_name = \<lparr>cur_ptr = (buf_buffer ?rs, buf_len ?rs), cur_len = length n\<rparr>,
               hdr_value = \<lparr>cur_ptr = (buf_buffer ?rs1, buf_len ?rs1), cur_len = length v\<rparr>\<rparr>"
  let ?rh = "response_headers (boot w)"
  from Cons.prems(4) have room: "length (al_items ?rh) < al_slots ?rh" by simp
  then have p3: "aws_array_list_push_back ?rh ?rec m2 =
                   (True, ?rh\<lparr>al_items := al_items ?rh @ [?rec]\<rparr>, m2)"
    by (simp add: aws_array_list_push_back_def)
  let ?w3 = "w\<lparr>memory := m2,
               boot := (boot w)\<lparr>response_storage := ?rs2,
                                response_headers := ?rh\<lparr>al_items := al_items ?rh @ [?rec]\<rparr>\<rparr>\<rparr>"
  from a1 a2 p3 h have step: "response_headers_loop (h # hs) w = response_headers_loop hs ?w3"
    by (simp add: Let_def)
  have c1: "block_of (memory ?w3) (buf_buffer (response_storage (boot ?w3))) = Some ((bs @ n) @ v)"
    using b2 by simp
  have c2: "length ((bs @ n) @ v) = buf_len (response_storage (boot ?w3))"
    using Cons.prems(2) by simp
  have c3: "buf_len (response_storage (boot ?w3)) + headers_length hs
              \<le> buf_capacity (response_storage (boot ?w3))"
    using Cons.prems(3) h by simp
  have c4: "length (al_items (response_headers (boot ?w3))) + length hs
              \<le> al_slots (response_headers (boot ?w3))"
    using Cons.prems(4) by simp
  from Cons.IH [OF c1 c2 c3 c4] obtain w' where
    r: "response_headers_loop hs ?w3 = (False, w')"
       "buf_buffer (response_storage (boot w')) = buf_buffer ?rs"
       "buf_capacity (response_storage (boot w')) = buf_capacity ?rs"
       "buf_len (response_storage (boot w')) = buf_len ?rs + length n + length v + headers_length hs"
       "al_slots (response_headers (boot w')) = al_slots ?rh"
       "al_items (response_headers (boot w')) =
          (al_items ?rh @ [?rec]) @
          records_at (buf_buffer ?rs) (buf_len ?rs + length n + length v) hs"
       "block_of (memory w') (buf_buffer ?rs) = Some (((bs @ n) @ v) @ flat hs)"
    by (auto simp: add.assoc)
  from r step h show ?case by (simp add: add.assoc)
qed

lemma captured_batch:
  assumes "captured prev w"
      and "headers_length (prev @ hs) \<le> buf_capacity (response_storage (boot w))"
      and "length (prev @ hs) \<le> al_slots (response_headers (boot w))"
  shows "captured (prev @ hs) (s_ws_bootstrap_on_handshake_response_headers stream hs w) \<and>
         buf_capacity (response_storage
           (boot (s_ws_bootstrap_on_handshake_response_headers stream hs w))) =
           buf_capacity (response_storage (boot w)) \<and>
         al_slots (response_headers
           (boot (s_ws_bootstrap_on_handshake_response_headers stream hs w))) =
           al_slots (response_headers (boot w)) \<and>
         events (s_ws_bootstrap_on_handshake_response_headers stream hs w) = events w"
proof -
  from assms(1) have
    blk: "block_of (memory w) (buf_buffer (response_storage (boot w))) = Some (flat prev)"
    and len: "buf_len (response_storage (boot w)) = headers_length prev"
    and items: "al_items (response_headers (boot w)) =
                  records_at (buf_buffer (response_storage (boot w))) 0 prev"
    by (simp_all add: captured_def)
  have l0: "length (flat prev) = buf_len (response_storage (boot w))" using len by simp
  have fit: "buf_len (response_storage (boot w)) + headers_length hs
               \<le> buf_capacity (response_storage (boot w))"
    using assms(2) len by simp
  have "length (records_at b off xs) = length xs" for b off xs
    by (induction xs arbitrary: off) auto
  with items assms(3) have room: "length (al_items (response_headers (boot w))) + length hs
               \<le> al_slots (response_headers (boot w))"
    by simp
  from response_headers_loop_in_place [OF blk l0 fit room] obtain w' where
    r: "response_headers_loop hs w = (False, w')"
       "buf_buffer (response_storage (boot w')) = buf_buffer (response_storage (boot w))"
       "buf_capacity (response_storage (boot w')) = buf_capacity (response_storage (boot w))"
       "buf_len (response_storage (boot w')) =
          buf_len (response_storage (boot w)) + headers_length hs"
       "al_slots (response_headers (boot w')) = al_slots (response_headers (boot w))"
       "al_items (response_headers (boot w')) =
          al_items (response_headers (boot w)) @
          records_at (buf_buffer (response_storage (boot w)))
            (buf_len (response_storage (boot w))) hs"
       "block_of (memory w') (buf_buffer (response_storage (boot w))) = Some (flat prev @ flat hs)"
    by blast
  from r(1) have e: "s_ws_bootstrap_on_handshake_response_headers stream hs w = w'"
    by (simp add: s_ws_bootstrap_on_handshake_response_headers_def)
  from loop_control [OF r(1)] have ev: "events w' = events w" by simp
  from r items len show ?thesis
    unfolding e by (simp add: captured_def records_at_append ev)
qed

lemma captured_resolves:
  "captured hs w \<Longrightarrow>
   map (resolve_header (memory w)) (al_items (response_headers (boot w))) = map Some hs"
  using resolve_records_at [of "memory w" "buf_buffer (response_storage (boot w))" "[]" hs "[]" 0]
  by (simp add: captured_def)

lemma headers_round_trip_without_growth:
  assumes "captured prev w"
      and "headers_length (prev @ concat batches) \<le> buf_capacity (response_storage (boot w))"
      and "length (prev @ concat batches) \<le> al_slots (response_headers (boot w))"
  shows "captured (prev @ concat batches) (deliver_batches stream batches w)"
  using assms
proof (induction batches arbitrary: prev w)
  case Nil
  then show ?case by (simp add: deliver_batches_def)
next
  case (Cons hs batches)
  let ?w1 = "s_ws_bootstrap_on_handshake_response_headers stream hs w"
  from Cons.prems have
    "headers_length (prev @ hs) \<le> buf_capacity (response_storage (boot w))"
    "length (prev @ hs) \<le> al_slots (response_headers (boot w))"
    by simp_all
  from captured_batch [OF Cons.prems(1) this, of stream] have
    c: "captured (prev @ hs) ?w1"
    and cap: "buf_capacity (response_storage (boot ?w1)) = buf_capacity (response_storage (boot w))"
    and sl: "al_slots (response_headers (boot ?w1)) = al_slots (response_headers (boot w))"
    by simp_all
  from Cons.prems cap sl have
    "headers_length ((prev @ hs) @ concat batches) \<le> buf_capacity (response_storage (boot ?w1))"
    "length ((prev @ hs) @ concat batches) \<le> al_slots (response_headers (boot ?w1))"
    by simp_all
  from Cons.IH [OF c this] show ?case by (simp add: deliver_batches_def)
qed

lemma byte_buf_init_fresh:
  "aws_byte_buf_init cap m = (Some buf, m') \<Longrightarrow>
   block_of m' (buf_buffer buf) = Some [] \<and> buf_len buf = 0 \<and> buf_capacity buf = cap"
  by (auto simp: aws_byte_buf_init_def split: prod.splits option.splits
        dest!: block_of_acquire)

lemma array_list_init_empty:
  "aws_array_list_init_dynamic n m = (Some l, m') \<Longrightarrow> al_items l = [] \<and> al_slots l = n"
  by (auto simp: aws_array_list_init_dynamic_def split: prod.splits option.splits)

lemma connect_captured:
  assumes "aws_websocket_client_connect options m hc = Inr w"
  shows "captured [] w"
  using assms
  by (auto simp: aws_websocket_client_connect_def connect_create_def Let_def captured_def
        split: if_splits option.splits prod.splits list.splits
        dest!: byte_buf_init_fresh array_list_init_empty)

text \<open>
  While the response storage does not have to grow and the array of records has room,
  the records captured from any sequence of batches denote the headers received, in
  order.
\<close>

lemma response_headers_round_trip_within_capacity:
  assumes "aws_websocket_client_connect options m hc = Inr w"
      and "headers_length (concat batches) \<le> buf_capacity (response_storage (boot w))"
      and "length (concat batches) \<le> al_slots (response_headers (boot w))"
  shows "map (resolve_header (memory (deliver_batches stream batches w)))
           (al_items (response_headers (boot (deliver_batches stream batches w)))) =
         map Some (concat batches)"
  using headers_round_trip_without_growth [OF connect_captured [OF assms(1)], of batches stream]
        assms(2,3)
  by (simp add: captured_resolves)

lemma update_block_4:
  "[a, b, c, d, e][4 := x] = [a, b, c, d, x]"
  "[a, b, c, d, e, f][4 := x] = [a, b, c, d, x, f]"
  "[a, b, c, d, e, f][5 := x] = [a, b, c, d, e, x]"
  by (simp_all add: numeral_eq_Suc)

lemma long_header_moves_storage:
  "s_ws_bootstrap_on_handshake_response_headers upgrading_stream [long_header] example_world =
     example_world
       \<lparr>memory :=
          \<lparr>heap = [Some [], Some ''/chatUpgradewebsocket'', Some [], Some [], None,
                   Some (''Set-Cookie'' @ replicate 700 CHR ''v'')],
           alloc_plan = []\<rparr>,
        boot := (boot example_world)
          \<lparr>response_headers :=
             \<lparr>al_items = [\<lparr>hdr_name = \<lparr>cur_ptr = (4, 0), cur_len = 10\<rparr>,
                           hdr_value = \<lparr>cur_ptr = (4, 10), cur_len = 700\<rparr>\<rparr>],
              al_slots = 11, al_block = 3\<rparr>,
           response_storage := \<lparr>buf_buffer = 5, buf_len = 710, buf_capacity = 1408\<rparr>\<rparr>\<rparr>"
  by (simp add: s_ws_bootstrap_on_handshake_response_headers_def long_header_def
        example_world_def aws_byte_buf_append_dynamic_def Let_def aws_mem_acquire_def
        mem_write_def block_of_def aws_mem_release_def aws_array_list_push_back_def
        update_block_4)

text \<open>
  C2. The spec says that the header records captured across the batches resolve, at
  completion, to the headers received, byte for byte, also when the response storage
  has grown. The code takes the address of each record's name and value before the
  append that may move the storage. On the bootstrap created from one request header
  (a response storage of 704 bytes), a batch of one header with a name of 10 bytes and
  a value of 700 bytes makes the second append move the bytes to a new block and release
  the old one. The handler records no error, the header bytes are in the new block,
  and both cursors of the record still point into the released block: the record does
  not resolve to the header received.
\<close>

theorem response_header_record_dangles_after_growth:
  "setup_error_code
     (boot (s_ws_bootstrap_on_handshake_response_headers upgrading_stream [long_header]
              example_world)) = 0 \<and>
   response_storage
     (boot (s_ws_bootstrap_on_handshake_response_headers upgrading_stream [long_header]
              example_world)) = \<lparr>buf_buffer = 5, buf_len = 710, buf_capacity = 1408\<rparr> \<and>
   block_of
     (memory (s_ws_bootstrap_on_handshake_response_headers upgrading_stream [long_header]
                example_world)) 5 = Some (fst long_header @ snd long_header) \<and>
   block_of
     (memory (s_ws_bootstrap_on_handshake_response_headers upgrading_stream [long_header]
                example_world)) 4 = None \<and>
   al_items (response_headers
     (boot (s_ws_bootstrap_on_handshake_response_headers upgrading_stream [long_header]
              example_world))) =
     [\<lparr>hdr_name = \<lparr>cur_ptr = (4, 0), cur_len = 10\<rparr>,
       hdr_value = \<lparr>cur_ptr = (4, 10), cur_len = 700\<rparr>\<rparr>] \<and>
   map (resolve_header
          (memory (s_ws_bootstrap_on_handshake_response_headers upgrading_stream [long_header]
                     example_world)))
       (al_items (response_headers
          (boot (s_ws_bootstrap_on_handshake_response_headers upgrading_stream [long_header]
                   example_world)))) = [None]"
  unfolding long_header_moves_storage
  by (simp add: example_world_def block_of_def resolve_header_def resolve_def long_header_def)

subsection \<open>The first error\<close>

text \<open>No callback changes a sticky error once it is recorded.\<close>

lemma headers_sticky:
  assumes "setup_error_code (boot w) \<noteq> 0"
  shows "setup_error_code (boot (s_ws_bootstrap_on_handshake_response_headers s hs w)) =
         setup_error_code (boot w)"
proof -
  obtain err w' where l: "response_headers_loop hs w = (err, w')"
    by (cases "response_headers_loop hs w")
  from loop_setup_error [OF l] assms l show ?thesis
    by (cases err) (simp_all add: s_ws_bootstrap_on_handshake_response_headers_def)
qed

lemma deliver_sticky:
  assumes "setup_error_code (boot w) \<noteq> 0" and "deliver cb w = Inr w'"
  shows "setup_error_code (boot w') = setup_error_code (boot w)"
proof (cases cb)
  case (On_Http_Setup c e nr)
  with assms show ?thesis
    by (auto simp: deliver_def s_ws_bootstrap_on_http_setup_def Let_def
          split: if_splits option.splits sum.splits)
next
  case (On_Response_Headers s hs)
  with assms show ?thesis
    by (auto simp: deliver_def headers_sticky split: if_splits)
next
  case (On_Handshake_Complete s e hn)
  with assms show ?thesis
    by (auto simp: deliver_def s_ws_bootstrap_on_handshake_complete_def
          handshake_complete_error_def Let_def split: if_splits sum.splits)
next
  case (On_Http_Shutdown c e)
  with assms show ?thesis
    by (auto simp: deliver_def s_ws_bootstrap_on_http_shutdown_def Let_def split: if_splits)
qed

lemma run_sticky:
  "setup_error_code (boot w) \<noteq> 0 \<Longrightarrow> run cbs w = Inr w' \<Longrightarrow>
   setup_error_code (boot w') = setup_error_code (boot w)"
proof (induction cbs arbitrary: w)
  case Nil
  then show ?case by simp
next
  case (Cons cb cbs)
  show ?case
  proof (cases "deliver cb w")
    case (Inl f)
    with Cons.prems show ?thesis by simp
  next
    case (Inr w1)
    from deliver_sticky [OF Cons.prems(1) Inr]
    have s1: "setup_error_code (boot w1) = setup_error_code (boot w)" .
    with Cons.prems(1) have "setup_error_code (boot w1) \<noteq> 0" by simp
    moreover from Cons.prems(2) Inr have "run cbs w1 = Inr w'" by simp
    ultimately have "setup_error_code (boot w') = setup_error_code (boot w1)"
      by (rule Cons.IH)
    with s1 show ?thesis by simp
  qed
qed

text \<open>
  C5, as amended. In every sequence of calls of the cancellation on a bootstrap with no
  sticky error yet (error codes are non-zero, as the function asserts), only the first
  call records its error code and asks for the connection to be closed; the later calls
  change nothing, and no call invokes a user callback. Whatever callbacks follow, the
  sticky error stays the first error recorded, and when the shutdown of the connection
  is then reported with error code zero while the setup callback is still pending, the
  error reported to the setup callback is the first error recorded. (A non-zero error
  code of the shutdown takes precedence over it.)
\<close>

theorem cancel_first_error_wins:
  assumes "setup_error_code (boot w) = 0" and "e \<noteq> 0"
  shows "setup_error_code (boot (cancel_calls c (e # es) w)) = e \<and>
         new_events w (cancel_calls c (e # es) w) = [Connection_Close c] \<and>
         (\<forall>cbs w' c'.
            run cbs (cancel_calls c (e # es) w) = Inr w' \<and> websocket_setup_callback (boot w') \<longrightarrow>
            setup_error_code (boot w') = e \<and>
            new_events w' (s_ws_bootstrap_on_http_shutdown c' 0 w') =
              [Setup_Callback None e (response_status (boot w'))
                 (al_items (response_headers (boot w'))) (user_data (boot w')),
               Connection_Release c', Bootstrap_Destroyed])"
proof -
  let ?w1 = "cancel_calls c (e # es) w"
  from assms have s1: "setup_error_code (boot ?w1) = e"
    by (simp add: cancel_first)
  from assms have n1: "new_events w ?w1 = [Connection_Close c]"
    by (simp add: cancel_first new_events_def)
  have "setup_error_code (boot w') = e \<and>
        new_events w' (s_ws_bootstrap_on_http_shutdown c' 0 w') =
          [Setup_Callback None e (response_status (boot w'))
             (al_items (response_headers (boot w'))) (user_data (boot w')),
           Connection_Release c', Bootstrap_Destroyed]"
    if r: "run cbs ?w1 = Inr w'" and p: "websocket_setup_callback (boot w')" for cbs w' c'
  proof -
    from s1 assms(2) have "setup_error_code (boot ?w1) \<noteq> 0" by simp
    from run_sticky [OF this r] s1 have s: "setup_error_code (boot w') = e" by simp
    with p assms(2) show ?thesis by (simp add: new_events_def events_shutdown)
  qed
  with s1 n1 show ?thesis by blast
qed

theorem cancel_first_error_wins_witness:
  "setup_error_code (boot example_world) = 0 \<and> AWS_ERROR_OOM \<noteq> 0 \<and>
   new_events example_world
     (cancel_calls 1 [AWS_ERROR_OOM, AWS_ERROR_HTTP_WEBSOCKET_UPGRADE_FAILURE] example_world) =
     [Connection_Close 1] \<and>
   (\<exists>w'. run [On_Handshake_Complete refusing_stream 0 (Inr 3)]
            (cancel_calls 1 [AWS_ERROR_OOM, AWS_ERROR_HTTP_WEBSOCKET_UPGRADE_FAILURE]
               example_world) = Inr w' \<and>
      websocket_setup_callback (boot w') \<and>
      last_error w' = AWS_ERROR_HTTP_WEBSOCKET_UPGRADE_FAILURE \<and>
      new_events w' (s_ws_bootstrap_on_http_shutdown 1 0 w') =
        [Setup_Callback None AWS_ERROR_OOM 200 [] 7, Connection_Release 1, Bootstrap_Destroyed])"
proof -
  let ?w1 = "cancel_calls 1 [AWS_ERROR_OOM, AWS_ERROR_HTTP_WEBSOCKET_UPGRADE_FAILURE] example_world"
  have h0: "setup_error_code (boot example_world) = 0"
    by (simp add: example_world_def)
  have h1: "AWS_ERROR_OOM \<noteq> 0" by simp
  note t = cancel_first_error_wins [OF h0 h1, of 1 "[AWS_ERROR_HTTP_WEBSOCKET_UPGRADE_FAILURE]"]
  have w1: "?w1 = emit (Connection_Close 1)
                    (example_world\<lparr>boot := (boot example_world)\<lparr>setup_error_code := AWS_ERROR_OOM\<rparr>\<rparr>)"
    using h0 h1 by (rule cancel_first)
  obtain w' where r: "run [On_Handshake_Complete refusing_stream 0 (Inr 3)] ?w1 = Inr w'"
    and p: "websocket_setup_callback (boot w')"
    and le: "last_error w' = AWS_ERROR_HTTP_WEBSOCKET_UPGRADE_FAILURE"
    and f: "response_status (boot w') = 200" "al_items (response_headers (boot w')) = []"
           "user_data (boot w') = 7"
    unfolding w1
    by (simp add: deliver_def s_ws_bootstrap_on_handshake_complete_def
          handshake_complete_error_def Let_def refusing_stream_def example_world_def
          AWS_HTTP_STATUS_101_SWITCHING_PROTOCOLS_def)
  from t r p have "new_events w' (s_ws_bootstrap_on_http_shutdown 1 0 w') =
      [Setup_Callback None AWS_ERROR_OOM (response_status (boot w'))
         (al_items (response_headers (boot w'))) (user_data (boot w')),
       Connection_Release 1, Bootstrap_Destroyed]"
    by blast
  with f have "new_events w' (s_ws_bootstrap_on_http_shutdown 1 0 w') =
      [Setup_Callback None AWS_ERROR_OOM 200 [] 7, Connection_Release 1, Bootstrap_Destroyed]"
    by simp
  with t r p le h0 h1 show ?thesis by blast
qed

text \<open>
  The claim as stated fails: after a cancellation that recorded the upgrade failure, a
  shutdown that carries its own error code 1051 reports 1051, not the first error.
\<close>

theorem shutdown_error_overrides_first_error:
  "setup_error_code (boot (cancel_calls 1 [AWS_ERROR_HTTP_WEBSOCKET_UPGRADE_FAILURE] example_world))
     = AWS_ERROR_HTTP_WEBSOCKET_UPGRADE_FAILURE \<and>
   new_events (cancel_calls 1 [AWS_ERROR_HTTP_WEBSOCKET_UPGRADE_FAILURE] example_world)
     (s_ws_bootstrap_on_http_shutdown 1 1051
        (cancel_calls 1 [AWS_ERROR_HTTP_WEBSOCKET_UPGRADE_FAILURE] example_world)) =
     [Setup_Callback None 1051 AWS_HTTP_STATUS_UNKNOWN [] 7,
      Connection_Release 1, Bootstrap_Destroyed] \<and>
   1051 \<noteq> AWS_ERROR_HTTP_WEBSOCKET_UPGRADE_FAILURE"
  by (simp add: cancel_calls_def new_events_def events_shutdown example_world_def
        AWS_ERROR_HTTP_WEBSOCKET_UPGRADE_FAILURE_def)

text \<open>
  The amended claim is about a shutdown that finds the setup callback pending. The
  completion handler does not read the sticky error: when a header batch fails for lack
  of memory and cancels the setup, and the handshake then still completes with status
  101, the setup callback reports success and the recorded error reaches nobody,
  although the cancellation is documented as leading to "informing user of the failed
  websocket setup".
\<close>

lemma success_reported_after_cancel:
  "\<exists>w. run [On_Http_Setup (Some 1) 0 (Inr 0),
             On_Response_Headers upgrading_stream [long_header],
             On_Handshake_Complete upgrading_stream 0 (Inr 3),
             On_Http_Shutdown 1 0] starved_world = Inr w \<and>
       setup_error_code (boot w) = AWS_ERROR_OOM \<and>
       user_calls (events w) =
         [Setup_Callback (Some 3) 0 101 [] 7, Shutdown_Callback (Some 3) 0 7]"
  by (simp add: starved_world_def example_world_def upgrading_stream_def long_header_def
        deliver_def s_ws_bootstrap_on_http_setup_def
        s_ws_bootstrap_on_handshake_response_headers_def
        s_ws_bootstrap_on_handshake_complete_def events_shutdown
        s_ws_bootstrap_on_http_shutdown_def s_ws_bootstrap_destroy_def
        s_ws_bootstrap_cancel_setup_due_to_err_def aws_raise_error_def
        aws_byte_buf_append_dynamic_def aws_array_list_push_back_def aws_mem_acquire_def
        mem_write_def block_of_def update_block_4 Let_def
        AWS_HTTP_STATUS_101_SWITCHING_PROTOCOLS_def emit_def)

end
